theory Spec2Isabelle
  imports Complex_Main "HOL-Library.Log_Nat"
begin

section \<open>EduWave backend: identity lifecycle and course progress\<close>

text \<open>
  The handlers of \<^verbatim>\<open>controllers/authController.js\<close>, the helpers of
  \<^verbatim>\<open>utils/generateToken.js\<close>, \<^verbatim>\<open>utils/generateVerificationToken.js\<close> and
  \<^verbatim>\<open>utils/sendEmail.js\<close>, and the method \<^verbatim>\<open>updateProgress\<close> of
  \<^verbatim>\<open>models/CourseProgress.js\<close>, as functions over an explicit user store.

  A handler \<^verbatim>\<open>async (req, res) => ...\<close> becomes a function from the
  collaborators, the store, the request and the clock reading to the response sent and
  the store left behind. Every \<^verbatim>\<open>return res.status(c).json(...)\<close> of the
  source is one branch of the function.
\<close>

subsection \<open>JavaScript strings and truthiness\<close>

text \<open>
  A JavaScript string is the list of its code units; the model covers strings whose code
  units are below 256. A request field that is absent (\<^verbatim>\<open>undefined\<close>) is
  \<open>None\<close>. The test \<^verbatim>\<open>!x\<close> on such a field holds for \<^verbatim>\<open>undefined\<close> and
  for the empty string.
\<close>

definition truthy :: "string option \<Rightarrow> bool" where
  "truthy x = (case x of None \<Rightarrow> False | Some s \<Rightarrow> s \<noteq> [])"

text \<open>\<^verbatim>\<open>a || b\<close> on an environment variable with a string default.\<close>

definition or_default :: "string option \<Rightarrow> string \<Rightarrow> string" where
  "or_default x d = (case x of None \<Rightarrow> d | Some s \<Rightarrow> if s = [] then d else s)"

definition is_white :: "char \<Rightarrow> bool" where
  "is_white c = (c \<in> set [CHR 0x09, CHR 0x0A, CHR 0x0B, CHR 0x0C, CHR 0x0D, CHR 0x20, CHR 0xA0])"

text \<open>\<^verbatim>\<open>String.prototype.trim\<close>.\<close>

definition trim :: "string \<Rightarrow> string" where
  "trim s = rev (dropWhile is_white (rev (dropWhile is_white s)))"

text \<open>\<^verbatim>\<open>String.prototype.toLowerCase\<close> on code units below 256.\<close>

definition lower_char :: "char \<Rightarrow> char" where
  "lower_char c =
     (let n = (of_char c :: nat)
      in if (65 \<le> n \<and> n \<le> 90) \<or> (192 \<le> n \<and> n \<le> 222 \<and> n \<noteq> 215)
         then char_of (n + 32) else c)"

definition toLowerCase :: "string \<Rightarrow> string" where
  "toLowerCase s = map lower_char s"

text \<open>\<^verbatim>\<open>s.includes(p)\<close>: \<open>p\<close> occurs in \<open>s\<close> as a contiguous block.\<close>

fun js_includes :: "string \<Rightarrow> string \<Rightarrow> bool" where
  "js_includes [] p = (p = [])"
| "js_includes (c # cs) p = (take (length p) (c # cs) = p \<or> js_includes cs p)"

text \<open>\<^verbatim>\<open>s.replace(p, r)\<close> with a string pattern: the first occurrence is replaced.\<close>

fun replace_first :: "string \<Rightarrow> string \<Rightarrow> string \<Rightarrow> string" where
  "replace_first [] p r = (if p = [] then r else [])"
| "replace_first (c # cs) p r =
     (if take (length p) (c # cs) = p then r @ drop (length p) (c # cs)
      else c # replace_first cs p r)"

text \<open>\<^verbatim>\<open>token.split('?')[0]\<close>: the part before the first question mark.\<close>

definition before_query :: "string \<Rightarrow> string" where
  "before_query s = takeWhile (\<lambda>c. c \<noteq> CHR ''?'') s"

subsection \<open>JavaScript numbers\<close>

text \<open>
  A number of the source is an IEEE double. The values that occur here are integers below
  \<open>2^53\<close> in magnitude (timestamps, counts), which are doubles, and the results of a
  division and of a multiplication, each of which is the exact result rounded to the
  nearest double, a tie going to the even significand. \<open>to_double\<close> is this rounding:
  with \<open>2^e \<le> \<bar>x\<bar> < 2^(e+1)\<close> the doubles around \<open>x\<close> are the multiples of
  \<open>2^(e-52)\<close>. The range of the exponent of a double (\<open>-1022\<close> to \<open>1023\<close>) is not
  modelled; the quotients and products below stay far inside it.
\<close>

text \<open>The nearest integer, a tie going to the even one.\<close>

definition round_even :: "rat \<Rightarrow> int" where
  "round_even x =
     (let n = \<lfloor>x\<rfloor>; r = x - of_int n
      in if r < 1 / 2 then n else if 1 / 2 < r then n + 1 else if even n then n else n + 1)"

text \<open>The \<open>e\<close> with \<open>2^e \<le> x < 2^(e+1)\<close>, for \<open>x > 0\<close>.\<close>

definition exponent :: "rat \<Rightarrow> int" where
  "exponent x =
     (let (p, q) = quotient_of x; d = bitlen p - bitlen q
      in if 2 powi d \<le> x then d else d - 1)"

definition to_double :: "rat \<Rightarrow> rat" where
  "to_double x =
     (if x = 0 then 0
      else let ulp = 2 powi (exponent \<bar>x\<bar> - 52)
           in of_int (round_even (x / ulp)) * ulp)"

subsection \<open>The User document and the store\<close>

text \<open>
  The fields are those the controller reads and writes. Timestamps are milliseconds
  since the epoch, as \<^verbatim>\<open>Date.now()\<close> returns them. A field that is
  \<^verbatim>\<open>undefined\<close> in the document is \<open>None\<close>.
\<close>

record user =
  user_id :: nat
  fullName :: string
  email :: string
  password :: string
  role :: string
  emailVerified :: bool
  emailVerificationToken :: "string option"
  emailVerificationExpire :: "int option"
  passwordResetToken :: "string option"
  passwordResetExpire :: "int option"
  stored_refreshToken :: "string option"
  loginStreak :: "int option"
  lastLoginDate :: "int option"

text \<open>
  The collection is the list of its documents in insertion order, with the counter that
  gives the next document its \<^verbatim>\<open>_id\<close>. \<^verbatim>\<open>findOne\<close> returns the first document
  that matches the filter; a filter compares a stored value with the given one as it is.
  The operations of the store do not fail, so the outer \<^verbatim>\<open>catch\<close> of a handler is
  reached only where a collaborator throws.
\<close>

record store =
  users :: "user list"
  next_id :: nat

definition findOne :: "store \<Rightarrow> (user \<Rightarrow> bool) \<Rightarrow> user option" where
  "findOne st P = find P (users st)"

definition findById :: "store \<Rightarrow> nat \<Rightarrow> user option" where
  "findById st i = findOne st (\<lambda>u. user_id u = i)"

text \<open>\<^verbatim>\<open>user.save()\<close>: the document with this \<^verbatim>\<open>_id\<close> is replaced.\<close>

definition save :: "store \<Rightarrow> user \<Rightarrow> store" where
  "save st u = st\<lparr>users := map (\<lambda>v. if user_id v = user_id u then u else v) (users st)\<rparr>"

definition findByIdAndDelete :: "store \<Rightarrow> nat \<Rightarrow> store" where
  "findByIdAndDelete st i = st\<lparr>users := filter (\<lambda>v. user_id v \<noteq> i) (users st)\<rparr>"

text \<open>
  Modelled from the spec: \<^verbatim>\<open>models/User.js\<close> (the schema with its defaults) is not
  among the sources. Section 3 of the specification gives the defaults: role
  \<^verbatim>\<open>user\<close>, \<^verbatim>\<open>emailVerified\<close> false, every token field, the refresh token and
  the last login empty. The validators of the schema are taken to accept the documents
  that the handlers create and save.
\<close>

definition default_role :: string where
  "default_role = ''user''"

definition new_user :: "nat \<Rightarrow> string \<Rightarrow> string \<Rightarrow> string \<Rightarrow> user" where
  "new_user i name mail pw =
     \<lparr>user_id = i, fullName = name, email = mail, password = pw, role = default_role,
      emailVerified = False, emailVerificationToken = None, emailVerificationExpire = None,
      passwordResetToken = None, passwordResetExpire = None, stored_refreshToken = None,
      loginStreak = None, lastLoginDate = None\<rparr>"

text \<open>\<^verbatim>\<open>User.create(doc)\<close>: the document gets a fresh \<^verbatim>\<open>_id\<close> and is appended.\<close>

definition create :: "store \<Rightarrow> (nat \<Rightarrow> user) \<Rightarrow> user \<times> store" where
  "create st mk =
     (let u = mk (next_id st)
      in (u, st\<lparr>users := users st @ [u], next_id := Suc (next_id st)\<rparr>))"

subsection \<open>Collaborators and configuration\<close>

text \<open>
  The libraries the controller calls and the process environment it reads.
  \<^item> \<open>sha256\<close> is \<^verbatim>\<open>crypto.createHash('sha256').update(s).digest('hex')\<close>.
  \<^item> \<open>jwt_sign i secret expiresIn iat\<close> is \<^verbatim>\<open>jwt.sign({ id: i }, secret, { expiresIn })\<close>
    called in the second \<open>iat\<close>. The library stamps a token with the time in whole
    seconds, \<^verbatim>\<open>Math.floor(Date.now() / 1000)\<close>, and the source adds nothing else to
    the payload, so the token is a function of the user, the secret, the lifetime and
    that second. \<open>Inr t\<close> is the token; \<open>Inl m\<close> is the library throwing an error with
    message \<open>m\<close>, as it does for a lifetime it cannot parse.
  \<^item> \<open>jwt_decode t secret\<close> is the payload of \<open>t\<close> when its signature is valid under
    \<open>secret\<close>.
  \<^item> \<open>hashPassword\<close> and \<open>matchPassword\<close> belong to the User model: the hash stored
    for a password, and \<^verbatim>\<open>user.matchPassword(candidate)\<close>.
  \<^item> \<open>resend_send from m\<close> is \<^verbatim>\<open>resend.emails.send\<close>: \<open>True\<close> when it reports no
    error.
  \<^item> \<open>checkConsistent\<close> is \<^verbatim>\<open>badgeService.checkConsistent\<close>: \<open>None\<close> when it
    returns, \<open>Some m\<close> when it throws an error with message \<open>m\<close>.
\<close>

record jwt_payload =
  jwt_id :: nat
  jwt_exp :: int

record mail =
  mail_to :: string
  subject :: string
  html_link :: string

record deps =
  sha256 :: "string \<Rightarrow> string"
  jwt_sign :: "nat \<Rightarrow> string \<Rightarrow> string \<Rightarrow> int \<Rightarrow> string + string"
  jwt_decode :: "string \<Rightarrow> string \<Rightarrow> jwt_payload option"
  hashPassword :: "string \<Rightarrow> string"
  matchPassword :: "user \<Rightarrow> string \<Rightarrow> bool"
  resend_send :: "string \<Rightarrow> mail \<Rightarrow> bool"
  checkConsistent :: "store \<Rightarrow> nat \<Rightarrow> string option"
  JWT_ACCESS_SECRET :: "string option"
  JWT_ACCESS_EXPIRE :: "string option"
  JWT_REFRESH_SECRET :: "string option"
  JWT_REFRESH_EXPIRE :: "string option"
  BACKEND_URL :: "string option"
  FRONTEND_URL :: "string option"
  RESEND_API_KEY :: "string option"
  FROM_EMAIL :: "string option"

text \<open>
  \<^verbatim>\<open>jwt.verify(token, secret)\<close> at time \<open>now\<close>: the payload when the signature is
  valid and the \<^verbatim>\<open>exp\<close> claim (in seconds) is still ahead; \<open>None\<close> where the
  library throws.
\<close>

definition jwt_verify :: "deps \<Rightarrow> string \<Rightarrow> string \<Rightarrow> int \<Rightarrow> jwt_payload option" where
  "jwt_verify D t secret now =
     (case jwt_decode D t secret of
        None \<Rightarrow> None
      | Some p \<Rightarrow> if jwt_exp p \<le> now div 1000 then None else Some p)"

text \<open>
  \<^verbatim>\<open>utils/generateToken.js\<close>, called at the time \<open>now\<close> in milliseconds. An error
  thrown by the signer passes through: \<open>Inl m\<close> is a throw with message \<open>m\<close>. The access
  token is signed first, so its error comes first.
\<close>

definition generateAccessToken :: "deps \<Rightarrow> nat \<Rightarrow> int \<Rightarrow> string + string" where
  "generateAccessToken D userId now =
     jwt_sign D userId (or_default (JWT_ACCESS_SECRET D) ''your-access-secret-key'')
       (or_default (JWT_ACCESS_EXPIRE D) ''15m'') (now div 1000)"

definition generateRefreshToken :: "deps \<Rightarrow> nat \<Rightarrow> int \<Rightarrow> string + string" where
  "generateRefreshToken D userId now =
     jwt_sign D userId (or_default (JWT_REFRESH_SECRET D) ''your-refresh-secret-key'')
       (or_default (JWT_REFRESH_EXPIRE D) ''7d'') (now div 1000)"

definition generateTokens :: "deps \<Rightarrow> nat \<Rightarrow> int \<Rightarrow> string + string \<times> string" where
  "generateTokens D userId now =
     (case generateAccessToken D userId now of
        Inl m \<Rightarrow> Inl m
      | Inr accessToken \<Rightarrow>
          (case generateRefreshToken D userId now of
             Inl m \<Rightarrow> Inl m
           | Inr refreshToken \<Rightarrow> Inr (accessToken, refreshToken)))"

text \<open>
  \<^verbatim>\<open>utils/generateVerificationToken.js\<close>; \<open>rnd\<close> is the value that
  \<^verbatim>\<open>crypto.randomBytes(32).toString('hex')\<close> draws for this call.
\<close>

definition generateVerificationToken :: "deps \<Rightarrow> string \<Rightarrow> string \<times> string" where
  "generateVerificationToken D rnd = (rnd, sha256 D rnd)"

text \<open>
  \<^verbatim>\<open>utils/sendEmail.js\<close>: without an API key nothing is sent and the call returns;
  otherwise the call returns when the provider reports no error and throws when it
  reports one. \<open>True\<close> is a return, \<open>False\<close> a throw.
\<close>

definition sendEmail :: "deps \<Rightarrow> mail \<Rightarrow> bool" where
  "sendEmail D m =
     (if \<not> truthy (RESEND_API_KEY D) then True
      else resend_send D (or_default (FROM_EMAIL D) ''EduWave '') m)"

subsection \<open>Requests and responses\<close>

record request =
  body_fullName :: "string option"
  body_email :: "string option"
  body_password :: "string option"
  body_passwordConfirm :: "string option"
  body_role :: "string option"
  body_token :: "string option"
  body_refreshToken :: "string option"
  params_token :: "string option"
  accept :: "string option"
  protocol :: string
  host :: string

text \<open>The \<^verbatim>\<open>user\<close> object of a response body; the older register and login omit the role.\<close>

record user_view =
  view_id :: nat
  view_fullName :: string
  view_email :: string
  view_emailVerified :: bool
  view_role :: "string option"

datatype data =
    NoData
  | UserData user_view
  | SessionData user_view string string
  | TokenData string string

text \<open>
  \<^verbatim>\<open>getVerificationPage\<close> fills a fixed HTML template: with a token, the page with the
  verify button (token, backend URL, frontend URL); without one, the result page
  (success flag, message, frontend URL).
\<close>

datatype page =
    ButtonPage string string string
  | ResultPage bool string string

datatype response =
    Json nat bool "string option" data
  | Html nat page

definition failure :: "nat \<Rightarrow> string \<Rightarrow> response" where
  "failure code msg = Json code False (Some msg) NoData"

definition success :: "nat \<Rightarrow> string \<Rightarrow> response" where
  "success code msg = Json code True (Some msg) NoData"

text \<open>\<^verbatim>\<open>error.message || fallback\<close> in the outer \<^verbatim>\<open>catch\<close> of a handler.\<close>

definition server_error :: "string \<Rightarrow> string \<Rightarrow> response" where
  "server_error msg fallback = failure 500 (if msg = [] then fallback else msg)"

definition view :: "user \<Rightarrow> user_view" where
  "view u = \<lparr>view_id = user_id u, view_fullName = fullName u, view_email = email u,
             view_emailVerified = emailVerified u, view_role = Some (role u)\<rparr>"

definition backendUrl :: "deps \<Rightarrow> request \<Rightarrow> string" where
  "backendUrl D req = or_default (BACKEND_URL D) (protocol req @ ''://'' @ host req)"

subsection \<open>Login\<close>

text \<open>
  The streak written by a successful login (lines 146 to 164): the hours since the last
  login are the double quotient of the millisecond difference by 3600000.
\<close>

definition next_streak :: "user \<Rightarrow> int \<Rightarrow> int" where
  "next_streak u now =
     (case lastLoginDate u of
        None \<Rightarrow> 1
      | Some lastLogin \<Rightarrow>
          let hoursSinceLastLogin = to_double (of_int (now - lastLogin) / (1000 * 60 * 60))
          in if hoursSinceLastLogin \<le> 24
             then (case loginStreak u of None \<Rightarrow> 0 | Some s \<Rightarrow> s) + 1
             else 1)"

definition login :: "deps \<Rightarrow> store \<Rightarrow> request \<Rightarrow> int \<Rightarrow> response \<times> store" where
  "login D st req now =
     (if \<not> truthy (body_email req) \<or> \<not> truthy (body_password req)
      then (failure 400 ''Please provide email and password'', st)
      else
        case findOne st (\<lambda>u. email u = the (body_email req)) of
          None \<Rightarrow> (failure 401 ''Invalid credentials'', st)
        | Some u \<Rightarrow>
            if \<not> emailVerified u
            then (failure 403 ''Please verify your email before logging in'', st)
            else if \<not> matchPassword D u (the (body_password req))
            then (failure 401 ''Invalid credentials'', st)
            else
              let u1 = u\<lparr>loginStreak := Some (next_streak u now), lastLoginDate := Some now\<rparr>
              in case checkConsistent D st (user_id u) of
                   Some msg \<Rightarrow> (server_error msg ''Server error during login'', st)
                 | None \<Rightarrow>
                     (case generateTokens D (user_id u) now of
                        Inl msg \<Rightarrow> (server_error msg ''Server error during login'', st)
                      | Inr (accessToken, refreshToken) \<Rightarrow>
                          let u2 = u1\<lparr>stored_refreshToken := Some refreshToken\<rparr>
                          in (Json 200 True (Some ''Login successful'')
                                (SessionData (view u2) accessToken refreshToken),
                              save st u2)))"

subsection \<open>Register\<close>

text \<open>
  The request passes: the presence checks, the password confirmation, the lookup of the
  email, the role check; then the user is created and the verification mail is sent,
  whose failure is caught and only logged. \<open>rnd\<close> is the random token of this request.
\<close>

definition role_message :: string where
  "role_message =
     ''You cannot assign roles during registration. All users register with the default ''
     @ [CHR 0x22] @ ''user'' @ [CHR 0x22] @ '' role.''"

definition register :: "deps \<Rightarrow> store \<Rightarrow> request \<Rightarrow> int \<Rightarrow> string \<Rightarrow> response \<times> store" where
  "register D st req now rnd =
     (if \<not> truthy (body_fullName req) \<or> \<not> truthy (body_email req)
         \<or> \<not> truthy (body_password req) \<or> \<not> truthy (body_passwordConfirm req)
      then (failure 400 ''Please provide all required fields'', st)
      else if body_password req \<noteq> body_passwordConfirm req
      then (failure 400 ''Passwords do not match'', st)
      else
        case findOne st (\<lambda>u. email u = the (body_email req)) of
          Some existingUser \<Rightarrow> (failure 400 ''User already exists with this email'', st)
        | None \<Rightarrow>
            if truthy (body_role req) \<and> body_role req \<noteq> Some ''user''
            then (failure 403 role_message, st)
            else
              let (verificationToken, hashedToken) = generateVerificationToken D rnd;
                  (u, st') = create st (\<lambda>i.
                     (new_user i (the (body_fullName req)) (the (body_email req))
                        (hashPassword D (the (body_password req))))
                     \<lparr>role := ''user'',
                      emailVerificationToken := Some hashedToken,
                      emailVerificationExpire := Some (now + 24 * 60 * 60 * 1000)\<rparr>);
                  verificationUrl = backendUrl D req @ ''/auth/verify-email/'' @ verificationToken;
                  sent = sendEmail D \<lparr>mail_to = email u, subject = ''Email Verification - EduWave'',
                                      html_link = verificationUrl\<rparr>
              in (Json 201 True
                    (Some ''Registration successful! Please check your email to verify your account.'')
                    (UserData (view u)),
                  st'))"

text \<open>
  The older variant of the handler (second half of the file): no role check, the role is
  left to the schema default, and a failed mail deletes the user again.
\<close>

definition register_v2 :: "deps \<Rightarrow> store \<Rightarrow> request \<Rightarrow> int \<Rightarrow> string \<Rightarrow> response \<times> store" where
  "register_v2 D st req now rnd =
     (if \<not> truthy (body_fullName req) \<or> \<not> truthy (body_email req)
         \<or> \<not> truthy (body_password req) \<or> \<not> truthy (body_passwordConfirm req)
      then (failure 400 ''Please provide all required fields'', st)
      else if body_password req \<noteq> body_passwordConfirm req
      then (failure 400 ''Passwords do not match'', st)
      else
        case findOne st (\<lambda>u. email u = the (body_email req)) of
          Some existingUser \<Rightarrow> (failure 400 ''User already exists with this email'', st)
        | None \<Rightarrow>
            let (verificationToken, hashedToken) = generateVerificationToken D rnd;
                (u, st') = create st (\<lambda>i.
                   (new_user i (the (body_fullName req)) (the (body_email req))
                      (hashPassword D (the (body_password req))))
                   \<lparr>emailVerificationToken := Some hashedToken,
                    emailVerificationExpire := Some (now + 24 * 60 * 60 * 1000)\<rparr>);
                verificationUrl =
                  protocol req @ ''://'' @ host req @ ''/auth/verify-email/'' @ verificationToken
            in if sendEmail D \<lparr>mail_to = email u, subject = ''Email Verification - EduWise'',
                                html_link = verificationUrl\<rparr>
               then (Json 201 True
                       (Some ''Registration successful! Please check your email to verify your account.'')
                       (UserData ((view u)\<lparr>view_role := None\<rparr>)),
                     st')
               else (failure 500 ''Registration failed. Could not send verification email.'',
                     findByIdAndDelete st' (user_id u)))"

subsection \<open>Verify email\<close>

definition getVerificationPage :: "deps \<Rightarrow> request \<Rightarrow> bool \<Rightarrow> string \<Rightarrow> string option \<Rightarrow> page" where
  "getVerificationPage D req ok message token =
     (let backend = or_default (BACKEND_URL D) (protocol req @ ''://'' @ host req);
          frontendUrl = or_default (FRONTEND_URL D) ''http://localhost:5500''
      in if truthy token then ButtonPage (the token) backend frontendUrl
         else ResultPage ok message frontendUrl)"

text \<open>The two locals of the handler: the token of the path and whether a browser asks.\<close>

definition path_token :: "request \<Rightarrow> string option" where
  "path_token req =
     (if truthy (params_token req) \<and> js_includes (the (params_token req)) ''?''
      then Some (before_query (the (params_token req)))
      else params_token req)"

definition acceptsHtml :: "request \<Rightarrow> bool" where
  "acceptsHtml req = (truthy (accept req) \<and> js_includes (the (accept req)) ''text/html'')"

definition verifyEmail :: "deps \<Rightarrow> store \<Rightarrow> request \<Rightarrow> int \<Rightarrow> response \<times> store" where
  "verifyEmail D st req now =
     (let token = path_token req
      in if acceptsHtml req
         then (if \<not> truthy token \<or> trim (the token) = []
               then (Html 400 (getVerificationPage D req False ''Verification token is required.'' None), st)
               else (Html 200 (getVerificationPage D req False [] token), st))
         else if \<not> truthy token \<or> trim (the token) = []
         then (failure 400 ''Verification token is required'', st)
         else
           let hashedToken = sha256 D (trim (the token))
           in case findOne st (\<lambda>u. emailVerificationToken u = Some hashedToken) of
                None \<Rightarrow>
                  (failure 400
                     ''Invalid verification token. The token may be incorrect or already used.'',
                   st)
              | Some u \<Rightarrow>
                  if (case emailVerificationExpire u of None \<Rightarrow> False | Some e \<Rightarrow> e < now)
                  then (failure 400
                          ''Verification token has expired. Please request a new verification email.'',
                        st)
                  else if emailVerified u
                  then (success 200 ''Email is already verified'', st)
                  else (success 200 ''Email verified successfully'',
                        save st (u\<lparr>emailVerified := True,
                                   emailVerificationToken := None,
                                   emailVerificationExpire := None\<rparr>)))"

subsection \<open>Resend verification\<close>


subsection \<open>Refresh token\<close>

definition refreshToken :: "deps \<Rightarrow> store \<Rightarrow> request \<Rightarrow> int \<Rightarrow> response \<times> store" where
  "refreshToken D st req now =
     (if \<not> truthy (body_refreshToken req)
      then (failure 400 ''Refresh token is required'', st)
      else
        case jwt_verify D (the (body_refreshToken req))
               (or_default (JWT_REFRESH_SECRET D) ''your-refresh-secret-key'') now of
          None \<Rightarrow> (failure 401 ''Invalid or expired refresh token'', st)
        | Some decoded \<Rightarrow>
            (case findById st (jwt_id decoded) of
               None \<Rightarrow> (failure 401 ''Invalid refresh token'', st)
             | Some u \<Rightarrow>
                 if stored_refreshToken u \<noteq> body_refreshToken req
                 then (failure 401 ''Invalid refresh token'', st)
                 else
                   (case generateTokens D (user_id u) now of
                      Inl msg \<Rightarrow> (server_error msg ''Server error during token refresh'', st)
                    | Inr (accessToken, newRefreshToken) \<Rightarrow>
                        (Json 200 True None (TokenData accessToken newRefreshToken),
                         save st (u\<lparr>stored_refreshToken := Some newRefreshToken\<rparr>)))))"

subsection \<open>Forgot password and reset password\<close>

definition forgot_message :: string where
  "forgot_message = ''If an account exists with this email, a password reset link has been sent.''"

text \<open>The mail with the reset link, as the handler hands it to \<^verbatim>\<open>sendEmail\<close>.\<close>

definition reset_mail :: "deps \<Rightarrow> request \<Rightarrow> user \<Rightarrow> string \<Rightarrow> mail" where
  "reset_mail D req u resetToken =
     (let frontendUrl = or_default (FRONTEND_URL D)
                          (protocol req @ ''://'' @ replace_first (host req) '':3000'' []);
          resetUrl = frontendUrl @ ''/reset-password.html?token='' @ resetToken
      in \<lparr>mail_to = email u, subject = ''Password Reset Request - EduWise'',
          html_link = resetUrl\<rparr>)"

definition forgotPassword ::
  "deps \<Rightarrow> store \<Rightarrow> request \<Rightarrow> int \<Rightarrow> string \<Rightarrow> response \<times> store" where
  "forgotPassword D st req now rnd =
     (if \<not> truthy (body_email req)
      then (failure 400 ''Email is required'', st)
      else
        case findOne st (\<lambda>u. email u = toLowerCase (the (body_email req))) of
          None \<Rightarrow> (success 200 forgot_message, st)
        | Some u \<Rightarrow>
            let resetToken = rnd;
                hashedToken = sha256 D resetToken;
                u1 = u\<lparr>passwordResetToken := Some hashedToken,
                       passwordResetExpire := Some (now + 60 * 60 * 1000)\<rparr>;
                st1 = save st u1
            in if sendEmail D (reset_mail D req u1 resetToken)
               then (success 200 forgot_message, st1)
               else
                 (failure 500 ''Failed to send password reset email. Please try again later.'',
                  save st1 (u1\<lparr>passwordResetToken := None, passwordResetExpire := None\<rparr>)))"

definition resetPassword :: "deps \<Rightarrow> store \<Rightarrow> request \<Rightarrow> int \<Rightarrow> response \<times> store" where
  "resetPassword D st req now =
     (if \<not> truthy (body_token req) \<or> \<not> truthy (body_password req)
         \<or> \<not> truthy (body_passwordConfirm req)
      then (failure 400 ''Please provide token, password, and password confirmation'', st)
      else if body_password req \<noteq> body_passwordConfirm req
      then (failure 400 ''Passwords do not match'', st)
      else if length (the (body_password req)) < 6
      then (failure 400 ''Password must be at least 6 characters'', st)
      else
        let hashedToken = sha256 D (trim (the (body_token req)))
        in case findOne st (\<lambda>u. passwordResetToken u = Some hashedToken
                                  \<and> (case passwordResetExpire u of
                                        None \<Rightarrow> False | Some e \<Rightarrow> e > now)) of
             None \<Rightarrow> (failure 400 ''Invalid or expired password reset token'', st)
           | Some u \<Rightarrow>
               (success 200 ''Password reset successfully'',
                save st (u\<lparr>password := hashPassword D (the (body_password req)),
                           passwordResetToken := None,
                           passwordResetExpire := None\<rparr>)))"

subsection \<open>Course progress\<close>

text \<open>
  \<^verbatim>\<open>models/CourseProgress.js\<close>. The two counts are integer-valued numbers below
  \<open>2^53\<close> in magnitude. The quotient and the product are double operations.
  \<^verbatim>\<open>Math.round\<close> is exact: the nearest integer, a tie going up.
\<close>

record courseProgress =
  userId :: nat
  courseId :: nat
  progress :: int
  completedLessons :: "int list"
  currentLesson :: int
  startedAt :: int
  lastAccessedAt :: int
  completedAt :: "int option"

datatype error = RangeError

definition Math_round :: "rat \<Rightarrow> int" where
  "Math_round x = \<lfloor>x + 1 / 2\<rfloor>"

text \<open>
  \<^verbatim>\<open>Array.from({ length: n }, (_, i) => i)\<close>: the length is clamped to
  \<open>0 .. 2^53 - 1\<close>, and an array longer than \<open>2^32 - 1\<close> cannot be created.
\<close>

definition array_from_length :: "int \<Rightarrow> error + int list" where
  "array_from_length n =
     (let len = (if n \<le> 0 then 0 else min n (2 ^ 53 - 1))
      in if len > 2 ^ 32 - 1 then Inl RangeError else Inr (map int [0 ..< nat len]))"

text \<open>
  \<^verbatim>\<open>this.save()\<close> runs the validators of the schema on the changed paths: the
  promise resolves when the progress is within \<open>0 .. 100\<close>.
\<close>

definition save_resolves :: "courseProgress \<Rightarrow> bool" where
  "save_resolves cp = (0 \<le> progress cp \<and> progress cp \<le> 100)"

text \<open>
  The result is the document after the call with the outcome of the save; the two clock
  readings are those of the two calls of \<^verbatim>\<open>Date.now()\<close>.
\<close>

definition updateProgress ::
  "int \<Rightarrow> int \<Rightarrow> courseProgress \<Rightarrow> int \<Rightarrow> int \<Rightarrow> error + courseProgress \<times> bool" where
  "updateProgress now1 now2 this completedLessonsCount totalLessons =
     (case array_from_length completedLessonsCount of
        Inl e \<Rightarrow> Inl e
      | Inr lessons \<Rightarrow>
          let p = (if totalLessons > 0
                   then Math_round
                          (to_double (to_double (of_int completedLessonsCount / of_int totalLessons) * 100))
                   else 0);
              cp1 = this\<lparr>completedLessons := lessons, progress := p, lastAccessedAt := now1\<rparr>;
              cp2 = (if progress cp1 = 100 \<and> completedAt cp1 = None
                     then cp1\<lparr>completedAt := Some now2\<rparr> else cp1)
          in Inr (cp2, save_resolves cp2))"

subsection \<open>Fixtures\<close>

text \<open>
  Test doubles for the collaborators: a hash that tags its input; a signer whose token
  names its lifetime and whether it was issued before or from the second 5, and which
  throws for the lifetime \<^verbatim>\<open>never\<close>; a password check by equality with the tagged
  password; and a mail provider that refuses one recipient.
\<close>

definition stub_deps :: deps where
  "stub_deps =
     \<lparr>sha256 = (\<lambda>s. ''h-'' @ s),
      jwt_sign = (\<lambda>i secret expiresIn iat.
                    if expiresIn = ''never'' then Inl ''bad lifetime''
                    else Inr (expiresIn @ (if iat < 5 then ''-T1'' else ''-T2''))),
      jwt_decode = (\<lambda>t secret. if t = ''7d-T1'' \<or> t = ''7d-T2''
                                then Some \<lparr>jwt_id = 1, jwt_exp = 1000\<rparr> else None),
      hashPassword = (\<lambda>p. ''pw-'' @ p),
      matchPassword = (\<lambda>u p. password u = ''pw-'' @ p),
      resend_send = (\<lambda>sender m. mail_to m \<noteq> ''bounce@x.org''),
      checkConsistent = (\<lambda>st i. None),
      JWT_ACCESS_SECRET = None, JWT_ACCESS_EXPIRE = None,
      JWT_REFRESH_SECRET = None, JWT_REFRESH_EXPIRE = None,
      BACKEND_URL = None, FRONTEND_URL = None,
      RESEND_API_KEY = Some ''key'', FROM_EMAIL = None\<rparr>"

definition no_request :: request where
  "no_request =
     \<lparr>body_fullName = None, body_email = None, body_password = None,
      body_passwordConfirm = None, body_role = None, body_token = None,
      body_refreshToken = None, params_token = None, accept = None,
      protocol = ''http'', host = ''localhost:3000''\<rparr>"

definition ann :: user where
  "ann = (new_user 1 ''Ann'' ''ann@x.org'' ''pw-secret1'')\<lparr>emailVerified := True\<rparr>"

definition bob :: user where
  "bob = (new_user 2 ''Bob'' ''bounce@x.org'' ''pw-secret2'')
           \<lparr>emailVerificationToken := Some ''h-vtok'', emailVerificationExpire := Some 90000\<rparr>"

definition two_users :: store where
  "two_users = \<lparr>users = [ann, bob], next_id = 3\<rparr>"

definition streak_store :: store where
  "streak_store =
     \<lparr>users = [ann\<lparr>loginStreak := Some 5, lastLoginDate := Some 1704067200000\<rparr>], next_id = 2\<rparr>"

definition ann_login :: request where
  "ann_login = no_request\<lparr>body_email := Some ''ann@x.org'', body_password := Some ''secret1''\<rparr>"

definition wrong_login :: request where
  "wrong_login = no_request\<lparr>body_email := Some ''ann@x.org'', body_password := Some ''guess''\<rparr>"

definition absent_login :: request where
  "absent_login = no_request\<lparr>body_email := Some ''zed@x.org'', body_password := Some ''guess''\<rparr>"

definition bob_login :: request where
  "bob_login = no_request\<lparr>body_email := Some ''bounce@x.org'', body_password := Some ''secret2''\<rparr>"



definition verify_request :: request where
  "verify_request = no_request\<lparr>params_token := Some ''vtok''\<rparr>"

definition carl :: user where
  "carl = (new_user 3 ''Carl'' ''carl@x.org'' ''pw-secret3'')
            \<lparr>emailVerificationToken := Some ''h-ctok'', emailVerificationExpire := Some 1000,
             passwordResetToken := Some ''h-rtok'', passwordResetExpire := Some 1000\<rparr>"

definition expired_store :: store where
  "expired_store = \<lparr>users = [ann, carl], next_id = 4\<rparr>"

definition carl_verify :: request where
  "carl_verify = no_request\<lparr>params_token := Some ''ctok''\<rparr>"

definition reset_request :: "string \<Rightarrow> request" where
  "reset_request t =
     no_request\<lparr>body_token := Some t, body_password := Some ''newpass'',
                body_passwordConfirm := Some ''newpass''\<rparr>"




definition mail_request :: "string \<Rightarrow> request" where
  "mail_request e = no_request\<lparr>body_email := Some e\<rparr>"

definition erin :: user where
  "erin = (new_user 5 ''Erin'' ''bounce@x.org'' ''pw-secret5'')
            \<lparr>emailVerified := True,
             passwordResetToken := Some ''h-old'', passwordResetExpire := Some 9000000\<rparr>"

definition erin_store :: store where
  "erin_store = \<lparr>users = [ann, erin], next_id = 6\<rparr>"

definition register_request :: "string \<Rightarrow> string option \<Rightarrow> request" where
  "register_request e r =
     no_request\<lparr>body_fullName := Some ''Finn'', body_email := Some e,
                body_password := Some ''secret6'', body_passwordConfirm := Some ''secret6'',
                body_role := r\<rparr>"

definition fresh_progress :: courseProgress where
  "fresh_progress =
     \<lparr>userId = 1, courseId = 1, progress = 0, completedLessons = [], currentLesson = 0,
      startedAt = 1000, lastAccessedAt = 1000, completedAt = None\<rparr>"

subsection \<open>Predicates of the statements\<close>

text \<open>
  The streak rule in the words of the specification, from the last login, the streak and
  the time of the login: with \<open>\<Delta>\<close> the hours between the last login and now, taken
  exactly, the streak is 1 without a last login, one more than before for \<open>\<Delta> \<le> 24\<close>
  and 1 otherwise. A streak that is not set counts as 0.
\<close>

definition spec_streak :: "int option \<Rightarrow> int option \<Rightarrow> int \<Rightarrow> int" where
  "spec_streak lastLogin streak now =
     (case lastLogin of
        None \<Rightarrow> 1
      | Some t \<Rightarrow>
          if (of_int (now - t) :: rat) / 3600000 \<le> 24
          then (case streak of None \<Rightarrow> 0 | Some s \<Rightarrow> s) + 1 else 1)"

text \<open>The user as a successful login at \<open>now\<close> with the new refresh token \<open>r\<close> leaves it.\<close>

definition after_login :: "user \<Rightarrow> int \<Rightarrow> string \<Rightarrow> user" where
  "after_login u now r =
     u\<lparr>loginStreak := Some (spec_streak (lastLoginDate u) (loginStreak u) now),
       lastLoginDate := Some now, stored_refreshToken := Some r\<rparr>"

text \<open>A pending verification hash identifies one user of the store.\<close>

definition hash_unique :: "store \<Rightarrow> string \<Rightarrow> bool" where
  "hash_unique st h =
     (\<forall>v\<in>set (users st). \<forall>w\<in>set (users st).
        emailVerificationToken v = Some h \<and> emailVerificationToken w = Some h
          \<longrightarrow> user_id v = user_id w)"

text \<open>The checks of a register request that come before the lookup of the email.\<close>

definition fields_valid :: "request \<Rightarrow> bool" where
  "fields_valid req =
     (truthy (body_fullName req) \<and> truthy (body_email req) \<and> truthy (body_password req)
      \<and> truthy (body_passwordConfirm req) \<and> body_password req = body_passwordConfirm req)"

section \<open>Properties\<close>

subsection \<open>Unfolding the model\<close>

lemmas fixture_defs =
  stub_deps_def no_request_def ann_def bob_def two_users_def new_user_def default_role_def

lemmas handler_defs =
  truthy_def or_default_def findOne_def findById_def save_def create_def
  failure_def success_def server_error_def view_def backendUrl_def
  jwt_verify_def generateTokens_def generateAccessToken_def generateRefreshToken_def
  generateVerificationToken_def sendEmail_def Let_def

lemmas string_defs = path_token_def acceptsHtml_def trim_def is_white_def before_query_def
  toLowerCase_def lower_char_def

lemmas mail_defs = reset_mail_def forgot_message_def replace_first.simps

lemmas register_defs = register_def register_v2_def fields_valid_def findByIdAndDelete_def

subsection \<open>Double arithmetic\<close>

lemma round_even_le: "x \<le> of_int N \<Longrightarrow> round_even x \<le> N"
proof -
  assume a: "x \<le> of_int N"
  then have f: "\<lfloor>x\<rfloor> \<le> N" by (simp add: floor_le_iff)
  show ?thesis
  proof (cases "\<lfloor>x\<rfloor> = N")
    case True
    then have "of_int N \<le> x" by (metis of_int_floor_le)
    with a have "x = of_int N" by simp
    then show ?thesis by (simp add: round_even_def)
  next
    case False
    with f have "\<lfloor>x\<rfloor> + 1 \<le> N" by simp
    then show ?thesis by (auto simp: round_even_def Let_def)
  qed
qed

lemma round_even_nonneg: "0 \<le> x \<Longrightarrow> 0 \<le> round_even x"
  by (auto simp: round_even_def Let_def)

lemma bitlen_pos: "0 < p \<Longrightarrow> 1 \<le> bitlen p"
  by (simp add: bitlen_alt_def)

lemma bits_lower:
  assumes "0 < p" "0 < q"
  shows "(2::rat) powi (bitlen p - bitlen q - 1) \<le> of_int p / of_int q"
proof -
  from assms have bp: "1 \<le> bitlen p" and bq: "1 \<le> bitlen q"
    by (simp_all add: bitlen_pos)
  have "(2::int) ^ nat (bitlen p - 1) \<le> p"
    using bitlen_bounds [OF assms(1)] by simp
  then have "(of_int ((2::int) ^ nat (bitlen p - 1)) :: rat) \<le> of_int p"
    by (simp only: of_int_le_iff)
  then have lo: "(2::rat) powi (bitlen p - 1) \<le> of_int p"
    using bp by (simp add: power_int_nonneg_exp)
  have "q < (2::int) ^ nat (bitlen q)"
    using bitlen_bounds [OF assms(2)] by simp
  then have "(of_int q :: rat) < of_int ((2::int) ^ nat (bitlen q))"
    by (simp only: of_int_less_iff)
  then have hi: "(of_int q :: rat) \<le> 2 powi (bitlen q)"
    using bq by (simp add: power_int_nonneg_exp)
  have "(2::rat) powi (bitlen p - bitlen q - 1) = 2 powi (bitlen p - 1) / 2 powi (bitlen q)"
    using power_int_diff [of "2::rat" "bitlen p - 1" "bitlen q"] by (simp add: algebra_simps)
  also have "\<dots> \<le> of_int p / of_int q"
    using lo hi assms by (intro frac_le) simp_all
  finally show ?thesis .
qed

lemma bits_upper:
  assumes "0 < p" "0 < q"
  shows "of_int p / of_int q < (2::rat) powi (bitlen p - bitlen q + 1)"
proof -
  from assms have bp: "1 \<le> bitlen p" and bq: "1 \<le> bitlen q"
    by (simp_all add: bitlen_pos)
  have "p < (2::int) ^ nat (bitlen p)"
    using bitlen_bounds [OF assms(1)] by simp
  then have "(of_int p :: rat) < of_int ((2::int) ^ nat (bitlen p))"
    by (simp only: of_int_less_iff)
  then have hi: "(of_int p :: rat) < 2 powi (bitlen p)"
    using bp by (simp add: power_int_nonneg_exp)
  have "(2::int) ^ nat (bitlen q - 1) \<le> q"
    using bitlen_bounds [OF assms(2)] by simp
  then have "(of_int ((2::int) ^ nat (bitlen q - 1)) :: rat) \<le> of_int q"
    by (simp only: of_int_le_iff)
  then have lo: "(2::rat) powi (bitlen q - 1) \<le> of_int q"
    using bq by (simp add: power_int_nonneg_exp)
  have "of_int p / of_int q < (2::rat) powi (bitlen p) / 2 powi (bitlen q - 1)"
    using hi lo assms(1) by (intro frac_less) simp_all
  also have "\<dots> = (2::rat) powi (bitlen p - bitlen q + 1)"
    using power_int_diff [of "2::rat" "bitlen p" "bitlen q - 1"] by (simp add: algebra_simps)
  finally show ?thesis .
qed

lemma exponent_bounds:
  assumes "0 < x"
  shows "2 powi (exponent x) \<le> x" and "x < 2 powi (exponent x + 1)"
proof -
  obtain p q where pq: "quotient_of x = (p, q)"
    by (cases "quotient_of x")
  then have q: "0 < q" and x: "x = of_int p / of_int q"
    by (simp_all add: quotient_of_denom_pos quotient_of_div)
  with assms have p: "0 < p"
    by (simp add: zero_less_divide_iff)
  let ?d = "bitlen p - bitlen q"
  have e: "exponent x = (if 2 powi ?d \<le> x then ?d else ?d - 1)"
    by (simp add: exponent_def pq)
  from bits_lower [OF p q] bits_upper [OF p q] x
  have lo: "2 powi (?d - 1) \<le> x" and hi: "x < 2 powi (?d + 1)"
    by simp_all
  show "2 powi (exponent x) \<le> x"
    using lo by (simp add: e)
  show "x < 2 powi (exponent x + 1)"
    using hi by (auto simp: e)
qed

lemma exponent_less:
  assumes "0 < x" and "x < 2 powi k"
  shows "exponent x < k"
proof (rule ccontr)
  assume "\<not> exponent x < k"
  then have "k \<le> exponent x" by simp
  then have "(2::rat) powi k \<le> 2 powi (exponent x)"
    by (intro power_int_increasing) simp_all
  also have "\<dots> \<le> x"
    using assms(1) by (rule exponent_bounds)
  finally show False
    using assms(2) by simp
qed

lemma to_double_nonneg: "0 \<le> x \<Longrightarrow> 0 \<le> to_double x"
  by (auto simp: to_double_def Let_def intro!: mult_nonneg_nonneg round_even_nonneg)

lemma to_double_le_int:
  assumes "0 \<le> x" and "x \<le> of_int m" and "m < 2 ^ 53"
  shows "to_double x \<le> of_int m"
proof (cases "x = 0")
  case True
  with assms show ?thesis
    by (simp add: to_double_def)
next
  case False
  with assms(1) have pos: "0 < x" by simp
  let ?e = "exponent x - 52"
  let ?ulp = "(2::rat) powi ?e"
  have ulp: "0 < ?ulp" by simp
  have "of_int m < (2::rat) ^ 53"
    using assms(3) by (metis of_int_less_numeral_power_cancel_iff)
  with assms(2) have "x < 2 powi 53"
    by simp
  with pos have "exponent x < 53"
    by (rule exponent_less)
  then have e: "?e \<le> 0" by simp
  have "1 / ?ulp = 2 powi (- ?e)"
    using power_int_minus_divide [of "2::rat" "- ?e"] by simp
  also have "\<dots> = 2 ^ nat (- ?e)"
    using e by (simp add: power_int_nonneg_exp)
  finally have inv: "1 / ?ulp = of_int (2 ^ nat (- ?e))"
    by simp
  have "x / ?ulp \<le> of_int m / ?ulp"
    using assms(2) ulp by (simp add: divide_right_mono)
  also have "\<dots> = of_int (m * 2 ^ nat (- ?e))"
    using inv by (simp add: field_simps)
  finally have "round_even (x / ?ulp) \<le> m * 2 ^ nat (- ?e)"
    by (rule round_even_le)
  then have "(of_int (round_even (x / ?ulp)) :: rat) \<le> of_int (m * 2 ^ nat (- ?e))"
    by (simp only: of_int_le_iff)
  then have "of_int (round_even (x / ?ulp)) * ?ulp \<le> of_int (m * 2 ^ nat (- ?e)) * ?ulp"
    using ulp by (simp add: mult_right_mono)
  also have "of_int (m * 2 ^ nat (- ?e)) * ?ulp = of_int m"
    using inv by (simp add: field_simps)
  finally show ?thesis
    using pos by (simp add: to_double_def Let_def)
qed

lemma round_even_ge: "of_int N \<le> x \<Longrightarrow> N \<le> round_even x"
proof -
  assume "of_int N \<le> x"
  then have "N \<le> \<lfloor>x\<rfloor>" by (simp add: le_floor_iff)
  then show ?thesis by (auto simp: round_even_def Let_def)
qed

lemma exponent_ge:
  assumes "0 < x" and "2 powi k \<le> x"
  shows "k \<le> exponent x"
proof (rule ccontr)
  assume "\<not> k \<le> exponent x"
  then have "exponent x + 1 \<le> k" by simp
  then have "(2::rat) powi (exponent x + 1) \<le> 2 powi k"
    by (intro power_int_increasing) simp_all
  with assms(2) have "2 powi (exponent x + 1) \<le> x" by simp
  with exponent_bounds(2) [OF assms(1)] show False by simp
qed

lemma to_double_nonpos: "x \<le> 0 \<Longrightarrow> to_double x \<le> 0"
proof -
  assume x: "x \<le> 0"
  have "round_even (x / 2 powi (exponent \<bar>x\<bar> - 52)) \<le> 0"
    using x by (intro round_even_le) (simp add: divide_nonpos_pos)
  then have "(of_int (round_even (x / 2 powi (exponent \<bar>x\<bar> - 52))) :: rat) \<le> 0"
    by simp
  then show ?thesis
    by (simp add: to_double_def Let_def mult_nonpos_nonneg)
qed

lemma to_double_ge_grid:
  assumes "0 < x" and "of_int N * 2 powi (exponent x - 52) \<le> x"
  shows "of_int N * 2 powi (exponent x - 52) \<le> to_double x"
proof -
  let ?ulp = "(2::rat) powi (exponent x - 52)"
  have ulp: "0 < ?ulp" by simp
  from assms(2) ulp have "of_int N \<le> x / ?ulp"
    by (simp add: pos_le_divide_eq)
  then have "N \<le> round_even (x / ?ulp)"
    by (rule round_even_ge)
  then have "(of_int N :: rat) \<le> of_int (round_even (x / ?ulp))"
    by (simp only: of_int_le_iff)
  then have "of_int N * ?ulp \<le> of_int (round_even (x / ?ulp)) * ?ulp"
    using ulp by (simp add: mult_right_mono)
  then show ?thesis
    using assms(1) by (simp add: to_double_def Let_def)
qed

lemma hours_threshold:
  "(to_double (of_int k / (1000 * 60 * 60)) \<le> 24) = (k \<le> 86400000)"
proof
  assume k: "k \<le> 86400000"
  let ?x = "(of_int k :: rat) / (1000 * 60 * 60)"
  have "(of_int k :: rat) \<le> of_int 86400000"
    using k by (simp only: of_int_le_iff)
  then have x: "?x \<le> of_int 24" by simp
  show "to_double ?x \<le> 24"
  proof (cases "0 \<le> ?x")
    case True
    from to_double_le_int [OF True x] show ?thesis by simp
  next
    case False
    then have "to_double ?x \<le> 0" by (intro to_double_nonpos) simp
    then show ?thesis by simp
  qed
next
  assume d: "to_double (of_int k / (1000 * 60 * 60)) \<le> 24"
  let ?x = "(of_int k :: rat) / (1000 * 60 * 60)"
  show "k \<le> 86400000"
  proof (rule ccontr)
    assume "\<not> k \<le> 86400000"
    then have "86400001 \<le> k" by simp
    then have "(of_int 86400001 :: rat) \<le> of_int k"
      by (simp only: of_int_le_iff)
    then have x: "86400001 / 3600000 \<le> ?x" by simp
    then have pos: "0 < ?x" by simp
    have "2 powi 4 \<le> ?x" using x by simp
    with pos have e: "4 \<le> exponent ?x" by (rule exponent_ge)
    let ?ulp = "(2::rat) powi (exponent ?x - 52)"
    show False
    proof (cases "exponent ?x = 4")
      case True
      have "of_int (24 * 2 ^ 48 + 1) * (2::rat) powi (exponent ?x - 52) \<le> 86400001 / 3600000"
        unfolding True by simp
      also note x
      finally have "of_int (24 * 2 ^ 48 + 1) * ?ulp \<le> to_double ?x"
        using pos by (intro to_double_ge_grid)
      moreover have "24 < of_int (24 * 2 ^ 48 + 1) * (2::rat) powi (exponent ?x - 52)"
        unfolding True by simp
      ultimately show False using d by simp
    next
      case False
      with e have e5: "5 \<le> exponent ?x" by simp
      have "of_int (2 ^ 52) * ?ulp = 2 powi (exponent ?x)"
        using power_int_add [of "2::rat" 52 "exponent ?x - 52"] by simp
      also have "\<dots> \<le> ?x" using pos by (rule exponent_bounds)
      finally have "of_int (2 ^ 52) * ?ulp \<le> to_double ?x"
        using pos by (intro to_double_ge_grid)
      moreover have "of_int (2 ^ 52) * ?ulp = 2 powi (exponent ?x)"
        using power_int_add [of "2::rat" 52 "exponent ?x - 52"] by simp
      moreover have "(2::rat) powi 5 \<le> 2 powi (exponent ?x)"
        using e5 by (intro power_int_increasing) simp_all
      ultimately show False using d by simp
    qed
  qed
qed

subsection \<open>The store\<close>



lemma find_Some_mem: "find P xs = Some x \<Longrightarrow> x \<in> set xs \<and> P x"
  by (induction xs) (auto split: if_splits)

lemma save_save:
  "user_id u2 = user_id u1 \<Longrightarrow> save (save st u1) u2 = save st u2"
  by (simp add: save_def comp_def cong: if_cong)

lemma map_replace_id:
  "\<forall>v\<in>set xs. user_id v = i \<longrightarrow> v = u \<Longrightarrow> map (\<lambda>v. if user_id v = i then u else v) xs = xs"
  by (induction xs) auto

lemma save_unchanged:
  "\<forall>v\<in>set (users st). user_id v = user_id u \<longrightarrow> v = u \<Longrightarrow> save st u = st"
  by (simp add: save_def map_replace_id)

subsection \<open>Login\<close>

lemma exact_hours_threshold:
  "((of_int k :: rat) / 3600000 \<le> 24) = (k \<le> 86400000)"
proof -
  have "((of_int k :: rat) / 3600000 \<le> 24) = ((of_int k :: rat) \<le> of_int 86400000)"
    by (simp add: field_simps)
  also have "\<dots> = (k \<le> 86400000)"
    by (simp only: of_int_le_iff)
  finally show ?thesis .
qed

lemma next_streak_ms:
  "next_streak u now =
     (case lastLoginDate u of
        None \<Rightarrow> 1
      | Some lastLogin \<Rightarrow>
          if now - lastLogin \<le> 86400000
          then (case loginStreak u of None \<Rightarrow> 0 | Some s \<Rightarrow> s) + 1 else 1)"
  by (simp only: next_streak_def Let_def hours_threshold)

text \<open>The double quotient of the source decides as the exact hours of the specification do.\<close>

lemma next_streak_spec:
  "next_streak u now = spec_streak (lastLoginDate u) (loginStreak u) now"
  by (simp only: next_streak_ms spec_streak_def exact_hours_threshold)

lemma login_succeeds:
  assumes "truthy (body_email req)" and "truthy (body_password req)"
    and "findOne st (\<lambda>u. email u = the (body_email req)) = Some u"
    and "emailVerified u" and "matchPassword D u (the (body_password req))"
    and "checkConsistent D st (user_id u) = None"
    and "generateTokens D (user_id u) now = Inr (a, r)"
  shows "login D st req now =
           (Json 200 True (Some ''Login successful'') (SessionData (view (after_login u now r)) a r),
            save st (after_login u now r))"
  using assms by (simp add: login_def after_login_def next_streak_spec Let_def)

lemma login_success_cases:
  assumes "login D st req now = (Json 200 True m d, st')"
  shows "\<exists>u a r. truthy (body_email req) \<and> truthy (body_password req)
           \<and> findOne st (\<lambda>u. email u = the (body_email req)) = Some u
           \<and> emailVerified u \<and> matchPassword D u (the (body_password req))
           \<and> checkConsistent D st (user_id u) = None
           \<and> generateTokens D (user_id u) now = Inr (a, r)
           \<and> m = Some ''Login successful''
           \<and> d = SessionData (view (after_login u now r)) a r
           \<and> st' = save st (after_login u now r)"
proof -
  from assms have wf: "truthy (body_email req)" "truthy (body_password req)"
    by (auto simp: login_def failure_def split: if_splits)
  from assms wf obtain u where
    found: "findOne st (\<lambda>u. email u = the (body_email req)) = Some u"
    by (cases "findOne st (\<lambda>u. email u = the (body_email req))")
      (auto simp: login_def failure_def)
  from assms wf found have ok: "emailVerified u" "matchPassword D u (the (body_password req))"
    by (auto simp: login_def failure_def split: if_splits)
  from assms wf found ok have badge: "checkConsistent D st (user_id u) = None"
    by (cases "checkConsistent D st (user_id u)")
      (auto simp: login_def failure_def server_error_def Let_def)
  from assms wf found ok badge obtain a r where
    tokens: "generateTokens D (user_id u) now = Inr (a, r)"
    by (cases "generateTokens D (user_id u) now")
      (auto simp: login_def failure_def server_error_def Let_def)
  from login_succeeds [OF wf found ok badge tokens] assms
  have "m = Some ''Login successful''" "d = SessionData (view (after_login u now r)) a r"
    "st' = save st (after_login u now r)"
    by simp_all
  with wf found ok badge tokens show ?thesis
    by blast
qed

lemma find_replace_email:
  "find (\<lambda>v. email v = e) xs = Some u \<Longrightarrow> user_id u = i \<Longrightarrow> email u' = e \<Longrightarrow>
   find (\<lambda>v. email v = e) (map (\<lambda>v. if user_id v = i then u' else v) xs) = Some u'"
  by (induction xs) (auto split: if_splits)

lemma findOne_save_email:
  assumes "findOne st (\<lambda>v. email v = e) = Some u"
    and "user_id u = user_id u'" and "email u' = e"
  shows "findOne (save st u') (\<lambda>v. email v = e) = Some u'"
  unfolding findOne_def save_def
  using assms by (simp add: findOne_def find_replace_email)

lemma after_login_found:
  assumes "findOne st (\<lambda>v. email v = e) = Some u"
  shows "findOne (save st (after_login u now r)) (\<lambda>v. email v = e) = Some (after_login u now r)"
proof -
  from assms have "email u = e"
    by (auto simp: findOne_def dest: find_Some_mem)
  then show ?thesis
    by (intro findOne_save_email [OF assms]) (simp_all add: after_login_def)
qed

text \<open>
  Claim C5. A login answers 200 exactly when the request carries an email and a password,
  a user is found by the email, is verified, the password matches, the badge check
  returns and the tokens are signed. The login then saves that user with the streak of
  the specification (1 without an earlier login; one more than before, an unset streak
  counting as 0, when the hours since the last login are at most 24; 1 when they are
  more), with the last login set to the time of this login, and with the new refresh
  token; and the user found by the same email in the store afterwards is that saved user.
\<close>

theorem login_streak:
  "((login D st req now = (Json 200 True m d, st')) =
      (\<exists>u a r. truthy (body_email req) \<and> truthy (body_password req)
         \<and> findOne st (\<lambda>u. email u = the (body_email req)) = Some u
         \<and> emailVerified u \<and> matchPassword D u (the (body_password req))
         \<and> checkConsistent D st (user_id u) = None
         \<and> generateTokens D (user_id u) now = Inr (a, r)
         \<and> m = Some ''Login successful''
         \<and> d = SessionData (view (after_login u now r)) a r
         \<and> st' = save st (after_login u now r)))
   \<and> (\<forall>u r. findOne st (\<lambda>u. email u = the (body_email req)) = Some u \<longrightarrow>
         findOne (save st (after_login u now r)) (\<lambda>u. email u = the (body_email req))
           = Some (after_login u now r)
       \<and> lastLoginDate (after_login u now r) = Some now
       \<and> loginStreak (after_login u now r) =
           Some (case lastLoginDate u of
                   None \<Rightarrow> 1
                 | Some lastLogin \<Rightarrow>
                     if (of_int (now - lastLogin) :: rat) / 3600000 \<le> 24
                     then (case loginStreak u of None \<Rightarrow> 0 | Some s \<Rightarrow> s) + 1
                     else 1))"
proof (intro conjI allI impI)
  show "(login D st req now = (Json 200 True m d, st')) =
      (\<exists>u a r. truthy (body_email req) \<and> truthy (body_password req)
         \<and> findOne st (\<lambda>u. email u = the (body_email req)) = Some u
         \<and> emailVerified u \<and> matchPassword D u (the (body_password req))
         \<and> checkConsistent D st (user_id u) = None
         \<and> generateTokens D (user_id u) now = Inr (a, r)
         \<and> m = Some ''Login successful''
         \<and> d = SessionData (view (after_login u now r)) a r
         \<and> st' = save st (after_login u now r))"
  proof
    assume "login D st req now = (Json 200 True m d, st')"
    then show "\<exists>u a r. truthy (body_email req) \<and> truthy (body_password req)
         \<and> findOne st (\<lambda>u. email u = the (body_email req)) = Some u
         \<and> emailVerified u \<and> matchPassword D u (the (body_password req))
         \<and> checkConsistent D st (user_id u) = None
         \<and> generateTokens D (user_id u) now = Inr (a, r)
         \<and> m = Some ''Login successful''
         \<and> d = SessionData (view (after_login u now r)) a r
         \<and> st' = save st (after_login u now r)"
      by (rule login_success_cases)
  next
    assume "\<exists>u a r. truthy (body_email req) \<and> truthy (body_password req)
         \<and> findOne st (\<lambda>u. email u = the (body_email req)) = Some u
         \<and> emailVerified u \<and> matchPassword D u (the (body_password req))
         \<and> checkConsistent D st (user_id u) = None
         \<and> generateTokens D (user_id u) now = Inr (a, r)
         \<and> m = Some ''Login successful''
         \<and> d = SessionData (view (after_login u now r)) a r
         \<and> st' = save st (after_login u now r)"
    then obtain u a r where
      c: "truthy (body_email req)" "truthy (body_password req)"
        "findOne st (\<lambda>u. email u = the (body_email req)) = Some u"
        "emailVerified u" "matchPassword D u (the (body_password req))"
        "checkConsistent D st (user_id u) = None"
        "generateTokens D (user_id u) now = Inr (a, r)" and
      r: "m = Some ''Login successful''" "d = SessionData (view (after_login u now r)) a r"
        "st' = save st (after_login u now r)"
      by blast
    from login_succeeds [OF c] r show "login D st req now = (Json 200 True m d, st')"
      by simp
  qed
next
  fix u r
  assume "findOne st (\<lambda>u. email u = the (body_email req)) = Some u"
  then show "findOne (save st (after_login u now r)) (\<lambda>u. email u = the (body_email req))
      = Some (after_login u now r)"
    by (rule after_login_found)
next
  fix u r
  show "lastLoginDate (after_login u now r) = Some now"
    by (simp add: after_login_def)
next
  fix u r
  show "loginStreak (after_login u now r) =
      Some (case lastLoginDate u of
              None \<Rightarrow> 1
            | Some lastLogin \<Rightarrow>
                if (of_int (now - lastLogin) :: rat) / 3600000 \<le> 24
                then (case loginStreak u of None \<Rightarrow> 0 | Some s \<Rightarrow> s) + 1
                else 1)"
    by (simp add: after_login_def spec_streak_def)
qed

text \<open>
  The example of the specification: Ann has streak 5 and logged in last at
  2024-01-01T00:00Z (1704067200000 ms). Her login 22 hours later answers 200 and leaves
  her with streak 6; her login 26 hours later instead answers 200 and leaves her with
  streak 1; the last login is the time of the login in both. In the store where she
  never logged in, her first login leaves her with streak 1.
\<close>

theorem login_streak_witness:
  "login stub_deps streak_store ann_login 1704146400000 =
     (Json 200 True (Some ''Login successful'')
        (SessionData
           \<lparr>view_id = 1, view_fullName = ''Ann'', view_email = ''ann@x.org'',
            view_emailVerified = True, view_role = Some ''user''\<rparr> ''15m-T2'' ''7d-T2''),
      \<lparr>users = [ann\<lparr>loginStreak := Some 6, lastLoginDate := Some 1704146400000,
                      stored_refreshToken := Some ''7d-T2''\<rparr>],
       next_id = 2\<rparr>)
   \<and> login stub_deps streak_store ann_login 1704160800000 =
     (Json 200 True (Some ''Login successful'')
        (SessionData
           \<lparr>view_id = 1, view_fullName = ''Ann'', view_email = ''ann@x.org'',
            view_emailVerified = True, view_role = Some ''user''\<rparr> ''15m-T2'' ''7d-T2''),
      \<lparr>users = [ann\<lparr>loginStreak := Some 1, lastLoginDate := Some 1704160800000,
                      stored_refreshToken := Some ''7d-T2''\<rparr>],
       next_id = 2\<rparr>)
   \<and> login stub_deps two_users ann_login 7000 =
     (Json 200 True (Some ''Login successful'')
        (SessionData
           \<lparr>view_id = 1, view_fullName = ''Ann'', view_email = ''ann@x.org'',
            view_emailVerified = True, view_role = Some ''user''\<rparr> ''15m-T2'' ''7d-T2''),
      \<lparr>users = [ann\<lparr>loginStreak := Some 1, lastLoginDate := Some 7000,
                      stored_refreshToken := Some ''7d-T2''\<rparr>, bob],
       next_id = 3\<rparr>)"
proof -
  let ?ann5 = "ann\<lparr>loginStreak := Some 5, lastLoginDate := Some 1704067200000\<rparr>"
  have run: "login stub_deps st ann_login now =
      (Json 200 True (Some ''Login successful'')
         (SessionData (view (after_login u now ''7d-T2'')) ''15m-T2'' ''7d-T2''),
       save st (after_login u now ''7d-T2''))"
    if "findOne st (\<lambda>u. email u = the (body_email ann_login)) = Some u"
      and "emailVerified u" and "matchPassword stub_deps u (the (body_password ann_login))"
      and "5000 \<le> now"
    for st u now
  proof -
    have "truthy (body_email ann_login)" "truthy (body_password ann_login)"
      by (simp_all add: ann_login_def no_request_def truthy_def)
    moreover note that(1-3)
    moreover have "checkConsistent stub_deps st (user_id u) = None"
      by (simp add: stub_deps_def)
    moreover have "generateTokens stub_deps (user_id u) now = Inr (''15m-T2'', ''7d-T2'')"
      using that(4) by (simp add: handler_defs stub_deps_def)
    ultimately show ?thesis
      using login_streak [of stub_deps st ann_login now "Some ''Login successful''"
          "SessionData (view (after_login u now ''7d-T2'')) ''15m-T2'' ''7d-T2''"
          "save st (after_login u now ''7d-T2'')", THEN conjunct1]
      by blast
  qed
  have found5: "findOne streak_store (\<lambda>u. email u = the (body_email ann_login)) = Some ?ann5"
    "emailVerified ?ann5" "matchPassword stub_deps ?ann5 (the (body_password ann_login))"
    by (simp_all add: streak_store_def ann_login_def handler_defs fixture_defs)
  have found0: "findOne two_users (\<lambda>u. email u = the (body_email ann_login)) = Some ann"
    "emailVerified ann" "matchPassword stub_deps ann (the (body_password ann_login))"
    by (simp_all add: ann_login_def handler_defs fixture_defs)
  have a: "login stub_deps streak_store ann_login 1704146400000 =
      (Json 200 True (Some ''Login successful'')
         (SessionData (view (after_login ?ann5 1704146400000 ''7d-T2'')) ''15m-T2'' ''7d-T2''),
       save streak_store (after_login ?ann5 1704146400000 ''7d-T2''))"
    using found5 by (rule run) simp
  have b: "login stub_deps streak_store ann_login 1704160800000 =
      (Json 200 True (Some ''Login successful'')
         (SessionData (view (after_login ?ann5 1704160800000 ''7d-T2'')) ''15m-T2'' ''7d-T2''),
       save streak_store (after_login ?ann5 1704160800000 ''7d-T2''))"
    using found5 by (rule run) simp
  have c: "login stub_deps two_users ann_login 7000 =
      (Json 200 True (Some ''Login successful'')
         (SessionData (view (after_login ann 7000 ''7d-T2'')) ''15m-T2'' ''7d-T2''),
       save two_users (after_login ann 7000 ''7d-T2''))"
    using found0 by (rule run) simp
  show ?thesis
    unfolding a b c
    by (simp add: after_login_def spec_streak_def streak_store_def view_def save_def
        fixture_defs)
qed

text \<open>
  Claim C6. A login against an email that no user has and a login with a wrong password
  for a verified user get the same response, 401 with the message
  \<^verbatim>\<open>Invalid credentials\<close>, and leave the store as it was, whatever the two stores
  and times are. A login with the right password for a user whose email is not verified
  gets 403 with its own message, which differs from that response. The requests carry
  an email and a password.
\<close>

theorem login_failures_indistinguishable:
  assumes "truthy (body_email r1)" and "truthy (body_password r1)"
    and "truthy (body_email r2)" and "truthy (body_password r2)"
    and "truthy (body_email r3)" and "truthy (body_password r3)"
    and absent: "findOne st1 (\<lambda>u. email u = the (body_email r1)) = None"
    and present: "findOne st2 (\<lambda>u. email u = the (body_email r2)) = Some u"
    and verified: "emailVerified u"
    and wrong: "\<not> matchPassword D u (the (body_password r2))"
    and unverified: "findOne st3 (\<lambda>u. email u = the (body_email r3)) = Some v"
      "\<not> emailVerified v"
    and right: "matchPassword D v (the (body_password r3))"
  shows "login D st1 r1 now1 = (failure 401 ''Invalid credentials'', st1)
       \<and> login D st2 r2 now2 = (failure 401 ''Invalid credentials'', st2)
       \<and> fst (login D st1 r1 now1) = fst (login D st2 r2 now2)
       \<and> login D st3 r3 now3 = (failure 403 ''Please verify your email before logging in'', st3)
       \<and> fst (login D st3 r3 now3) \<noteq> fst (login D st1 r1 now1)"
  using assms by (simp add: login_def failure_def)

theorem login_failures_indistinguishable_witness:
  "login stub_deps two_users absent_login 7000 = (failure 401 ''Invalid credentials'', two_users)
   \<and> login stub_deps two_users wrong_login 8000 = (failure 401 ''Invalid credentials'', two_users)
   \<and> fst (login stub_deps two_users absent_login 7000)
       = fst (login stub_deps two_users wrong_login 8000)
   \<and> login stub_deps two_users bob_login 9000
       = (failure 403 ''Please verify your email before logging in'', two_users)
   \<and> fst (login stub_deps two_users bob_login 9000)
       \<noteq> fst (login stub_deps two_users absent_login 7000)"
proof -
  have wf: "truthy (body_email absent_login)" "truthy (body_password absent_login)"
    "truthy (body_email wrong_login)" "truthy (body_password wrong_login)"
    "truthy (body_email bob_login)" "truthy (body_password bob_login)"
    by (simp_all add: truthy_def absent_login_def wrong_login_def bob_login_def no_request_def)
  have absent: "findOne two_users (\<lambda>u. email u = the (body_email absent_login)) = None"
    by (simp add: absent_login_def handler_defs fixture_defs)
  have present: "findOne two_users (\<lambda>u. email u = the (body_email wrong_login)) = Some ann"
    by (simp add: wrong_login_def handler_defs fixture_defs)
  have unverified: "findOne two_users (\<lambda>u. email u = the (body_email bob_login)) = Some bob"
    by (simp add: bob_login_def handler_defs fixture_defs)
  have ann: "emailVerified ann" "\<not> matchPassword stub_deps ann (the (body_password wrong_login))"
    by (simp_all add: wrong_login_def fixture_defs)
  have bob: "\<not> emailVerified bob" "matchPassword stub_deps bob (the (body_password bob_login))"
    by (simp_all add: bob_login_def fixture_defs)
  show ?thesis
    by (rule login_failures_indistinguishable
        [OF wf absent present ann unverified bob(1) bob(2)])
qed

subsection \<open>Refresh token\<close>










subsection \<open>Verify email\<close>

lemma find_None: "(find P xs = None) = (\<forall>x\<in>set xs. \<not> P x)"
  by (induction xs) auto

lemma verifyEmail_success_cases:
  assumes "verifyEmail D st req now = (success 200 ''Email verified successfully'', st')"
  shows "\<not> acceptsHtml req \<and> truthy (path_token req) \<and> trim (the (path_token req)) \<noteq> []
       \<and> (\<exists>u. findOne st (\<lambda>u. emailVerificationToken u
                                   = Some (sha256 D (trim (the (path_token req))))) = Some u
              \<and> st' = save st (u\<lparr>emailVerified := True, emailVerificationToken := None,
                                  emailVerificationExpire := None\<rparr>))"
  using assms
  by (auto simp: verifyEmail_def success_def failure_def Let_def split: if_splits option.splits)

lemma consumed_hash_gone:
  assumes found: "findOne st (\<lambda>u. emailVerificationToken u = Some h) = Some u"
    and unique: "hash_unique st h"
  shows "findOne (save st (u\<lparr>emailVerified := True, emailVerificationToken := None,
                             emailVerificationExpire := None\<rparr>))
           (\<lambda>u. emailVerificationToken u = Some h) = None"
proof -
  let ?u' = "u\<lparr>emailVerified := True, emailVerificationToken := None,
                emailVerificationExpire := None\<rparr>"
  let ?f = "\<lambda>v. if user_id v = user_id ?u' then ?u' else v"
  from found have u: "u \<in> set (users st)" "emailVerificationToken u = Some h"
    by (auto simp: findOne_def dest: find_Some_mem)
  have "emailVerificationToken (?f v) \<noteq> Some h" if v: "v \<in> set (users st)" for v
  proof (cases "user_id v = user_id u")
    case True
    then show ?thesis by simp
  next
    case False
    with unique u v have "emailVerificationToken v \<noteq> Some h"
      unfolding hash_unique_def by blast
    with False show ?thesis by simp
  qed
  then have "\<forall>x\<in>set (map ?f (users st)). emailVerificationToken x \<noteq> Some h"
    unfolding set_map by blast
  then have "find (\<lambda>u. emailVerificationToken u = Some h) (map ?f (users st)) = None"
    unfolding find_None by blast
  then show ?thesis
    by (simp add: findOne_def save_def)
qed

text \<open>
  Claim C2. When a verification request has succeeded (it set \<^verbatim>\<open>emailVerified\<close> and
  cleared the hash and the expiry of the user found), the same request sent again, at any
  time, fails with 400 \<^verbatim>\<open>Invalid verification token\<close> and changes nothing. The hash
  of the token is held by one user of the store.
\<close>

theorem verification_token_single_use:
  assumes "verifyEmail D st req now = (success 200 ''Email verified successfully'', st')"
    and "hash_unique st (sha256 D (trim (the (path_token req))))"
  shows "(\<exists>u. findOne st (\<lambda>u. emailVerificationToken u
                               = Some (sha256 D (trim (the (path_token req))))) = Some u
            \<and> st' = save st (u\<lparr>emailVerified := True, emailVerificationToken := None,
                                emailVerificationExpire := None\<rparr>))
       \<and> verifyEmail D st' req now' =
           (failure 400 ''Invalid verification token. The token may be incorrect or already used.'',
            st')"
proof -
  let ?h = "sha256 D (trim (the (path_token req)))"
  from verifyEmail_success_cases [OF assms(1)] obtain u where
    api: "\<not> acceptsHtml req" "truthy (path_token req)" "trim (the (path_token req)) \<noteq> []" and
    found: "findOne st (\<lambda>u. emailVerificationToken u = Some ?h) = Some u" and
    st': "st' = save st (u\<lparr>emailVerified := True, emailVerificationToken := None,
                             emailVerificationExpire := None\<rparr>)"
    by blast
  from found assms(2) have "findOne st' (\<lambda>u. emailVerificationToken u = Some ?h) = None"
    unfolding st' by (rule consumed_hash_gone)
  with api have "verifyEmail D st' req now' =
      (failure 400 ''Invalid verification token. The token may be incorrect or already used.'', st')"
    by (simp add: verifyEmail_def Let_def)
  with found st' show ?thesis
    by blast
qed

theorem verification_token_single_use_witness:
  "verifyEmail stub_deps two_users verify_request 7000
     = (success 200 ''Email verified successfully'',
        save two_users (bob\<lparr>emailVerified := True, emailVerificationToken := None,
                            emailVerificationExpire := None\<rparr>))
   \<and> hash_unique two_users ''h-vtok''
   \<and> verifyEmail stub_deps
       (save two_users (bob\<lparr>emailVerified := True, emailVerificationToken := None,
                           emailVerificationExpire := None\<rparr>)) verify_request 8000
     = (failure 400 ''Invalid verification token. The token may be incorrect or already used.'',
        save two_users (bob\<lparr>emailVerified := True, emailVerificationToken := None,
                            emailVerificationExpire := None\<rparr>))"
proof -
  let ?st' = "save two_users (bob\<lparr>emailVerified := True, emailVerificationToken := None,
                                  emailVerificationExpire := None\<rparr>)"
  have h: "sha256 stub_deps (trim (the (path_token verify_request))) = ''h-vtok''"
    by (simp add: verify_request_def path_token_def trim_def is_white_def handler_defs fixture_defs)
  have first: "verifyEmail stub_deps two_users verify_request 7000
                 = (success 200 ''Email verified successfully'', ?st')"
    by (simp add: verifyEmail_def verify_request_def path_token_def acceptsHtml_def trim_def
        is_white_def handler_defs fixture_defs)
  have unique: "hash_unique two_users (sha256 stub_deps (trim (the (path_token verify_request))))"
    unfolding h by (simp add: hash_unique_def fixture_defs)
  from verification_token_single_use [OF first unique, of 8000] first unique
  show ?thesis
    by (simp add: h)
qed

subsection \<open>Expired tokens\<close>

lemma verifyEmail_expired:
  assumes "\<not> acceptsHtml req" and "truthy (path_token req)"
    and "trim (the (path_token req)) \<noteq> []"
    and "findOne st (\<lambda>u. emailVerificationToken u
                            = Some (sha256 D (trim (the (path_token req))))) = Some u"
    and "emailVerificationExpire u = Some e" and "e < now"
  shows "verifyEmail D st req now =
           (failure 400 ''Verification token has expired. Please request a new verification email.'',
            st)"
  using assms by (simp add: verifyEmail_def Let_def)

lemma resetPassword_no_live_match:
  assumes "truthy (body_token req)" and "truthy (body_password req)"
    and "truthy (body_passwordConfirm req)"
    and "body_password req = body_passwordConfirm req"
    and "6 \<le> length (the (body_password req))"
    and "\<forall>v\<in>set (users st).
           passwordResetToken v = Some (sha256 D (trim (the (body_token req))))
             \<longrightarrow> (\<exists>e. passwordResetExpire v = Some e \<and> e \<le> now)"
  shows "resetPassword D st req now = (failure 400 ''Invalid or expired password reset token'', st)"
proof -
  let ?P = "\<lambda>u. passwordResetToken u = Some (sha256 D (trim (the (body_token req))))
                 \<and> (case passwordResetExpire u of None \<Rightarrow> False | Some e \<Rightarrow> e > now)"
  have "\<forall>v\<in>set (users st). \<not> ?P v"
    using assms(6) by (auto split: option.splits)
  then have "findOne st ?P = None"
    unfolding findOne_def find_None by blast
  with assms(1-5) show ?thesis
    by (simp add: resetPassword_def Let_def)
qed

text \<open>
  Claim C3, as the code has it, in two statements that stand each on its own. First: a
  verification request (not from a browser) whose token hashes to the stored hash of the
  user found, with that user's expiry in the past, fails with 400
  \<^verbatim>\<open>Verification token has expired\<close>, a response different from the one for a token
  that matches nobody, and the store is unchanged. Second, for any other store, request
  and time: a reset request that passes the field checks and whose token hash is held by
  a user, every holder having an expiry that is not in the future, fails with 400
  \<^verbatim>\<open>Invalid or expired password reset token\<close> and the store is unchanged; the
  response is the one the same request gets in a store where nobody holds the hash.
\<close>

theorem expired_token_responses:
  "(\<not> acceptsHtml vreq \<and> truthy (path_token vreq) \<and> trim (the (path_token vreq)) \<noteq> []
      \<and> findOne st (\<lambda>u. emailVerificationToken u
                            = Some (sha256 D (trim (the (path_token vreq))))) = Some u
      \<and> emailVerificationExpire u = Some e \<and> e < now
    \<longrightarrow> verifyEmail D st vreq now =
          (failure 400 ''Verification token has expired. Please request a new verification email.'',
           st)
        \<and> fst (verifyEmail D st vreq now)
            \<noteq> failure 400 ''Invalid verification token. The token may be incorrect or already used.'')
   \<and> (truthy (body_token rreq) \<and> truthy (body_password rreq)
      \<and> truthy (body_passwordConfirm rreq) \<and> body_password rreq = body_passwordConfirm rreq
      \<and> 6 \<le> length (the (body_password rreq))
      \<and> w \<in> set (users st2)
      \<and> passwordResetToken w = Some (sha256 D2 (trim (the (body_token rreq))))
      \<and> (\<forall>v\<in>set (users st2).
            passwordResetToken v = Some (sha256 D2 (trim (the (body_token rreq))))
              \<longrightarrow> (\<exists>e. passwordResetExpire v = Some e \<and> e \<le> now2))
    \<longrightarrow> resetPassword D2 st2 rreq now2
          = (failure 400 ''Invalid or expired password reset token'', st2)
        \<and> (\<forall>st0. (\<forall>v\<in>set (users st0).
                      passwordResetToken v \<noteq> Some (sha256 D2 (trim (the (body_token rreq)))))
               \<longrightarrow> fst (resetPassword D2 st0 rreq now2) = fst (resetPassword D2 st2 rreq now2)))"
proof (intro conjI impI)
  assume h: "\<not> acceptsHtml vreq \<and> truthy (path_token vreq) \<and> trim (the (path_token vreq)) \<noteq> []
      \<and> findOne st (\<lambda>u. emailVerificationToken u
                            = Some (sha256 D (trim (the (path_token vreq))))) = Some u
      \<and> emailVerificationExpire u = Some e \<and> e < now"
  then have v: "verifyEmail D st vreq now =
      (failure 400 ''Verification token has expired. Please request a new verification email.'', st)"
    by (intro verifyEmail_expired [where u = u and e = e]) blast+
  then show "verifyEmail D st vreq now =
      (failure 400 ''Verification token has expired. Please request a new verification email.'', st)" .
  from v show "fst (verifyEmail D st vreq now)
      \<noteq> failure 400 ''Invalid verification token. The token may be incorrect or already used.''"
    by (simp add: failure_def)
next
  assume h: "truthy (body_token rreq) \<and> truthy (body_password rreq)
      \<and> truthy (body_passwordConfirm rreq) \<and> body_password rreq = body_passwordConfirm rreq
      \<and> 6 \<le> length (the (body_password rreq))
      \<and> w \<in> set (users st2)
      \<and> passwordResetToken w = Some (sha256 D2 (trim (the (body_token rreq))))
      \<and> (\<forall>v\<in>set (users st2).
            passwordResetToken v = Some (sha256 D2 (trim (the (body_token rreq))))
              \<longrightarrow> (\<exists>e. passwordResetExpire v = Some e \<and> e \<le> now2))"
  then have r: "resetPassword D2 st2 rreq now2
      = (failure 400 ''Invalid or expired password reset token'', st2)"
    by (intro resetPassword_no_live_match) blast+
  then show "resetPassword D2 st2 rreq now2
      = (failure 400 ''Invalid or expired password reset token'', st2)" .
  have r0: "resetPassword D2 st0 rreq now2
      = (failure 400 ''Invalid or expired password reset token'', st0)"
    if "\<forall>v\<in>set (users st0).
          passwordResetToken v \<noteq> Some (sha256 D2 (trim (the (body_token rreq))))" for st0
    using h that by (intro resetPassword_no_live_match) blast+
  show "\<forall>st0. (\<forall>v\<in>set (users st0).
                  passwordResetToken v \<noteq> Some (sha256 D2 (trim (the (body_token rreq)))))
           \<longrightarrow> fst (resetPassword D2 st0 rreq now2) = fst (resetPassword D2 st2 rreq now2)"
    by (simp add: r r0)
qed

text \<open>
  The claim as stated fails for the reset: Carl's reset hash matches the token
  \<^verbatim>\<open>rtok\<close> and expired at 1000 ms; at 2000 ms the response to \<^verbatim>\<open>rtok\<close> is the
  response to a token that matches no hash at all.
\<close>

theorem reset_expired_counterexample:
  "passwordResetToken carl = Some (sha256 stub_deps (trim ''rtok''))
   \<and> passwordResetExpire carl = Some 1000 \<and> (1000 :: int) < 2000
   \<and> carl \<in> set (users expired_store)
   \<and> (\<exists>v\<in>set (users expired_store). passwordResetToken v = Some (sha256 stub_deps (trim ''rtok'')))
   \<and> \<not> (\<exists>v\<in>set (users expired_store). passwordResetToken v = Some (sha256 stub_deps (trim ''nope'')))
   \<and> fst (resetPassword stub_deps expired_store (reset_request ''rtok'') 2000)
       = fst (resetPassword stub_deps expired_store (reset_request ''nope'') 2000)
   \<and> fst (resetPassword stub_deps expired_store (reset_request ''rtok'') 2000)
       = failure 400 ''Invalid or expired password reset token''"
  by (simp add: resetPassword_def reset_request_def expired_store_def carl_def
      string_defs handler_defs fixture_defs)

text \<open>
  Bob's verification token expires at 90000 ms in a store where no reset is pending: at
  100000 ms it is answered as expired. Carl's reset token, in another store, expired at
  1000 ms: at 2000 ms it gets the combined answer, which is also the answer in the store
  where nobody holds a reset hash.
\<close>

theorem expired_token_responses_witness:
  "verifyEmail stub_deps two_users verify_request 100000 =
     (failure 400 ''Verification token has expired. Please request a new verification email.'',
      two_users)
   \<and> fst (verifyEmail stub_deps two_users verify_request 100000)
       \<noteq> failure 400 ''Invalid verification token. The token may be incorrect or already used.''
   \<and> resetPassword stub_deps expired_store (reset_request ''rtok'') 2000
       = (failure 400 ''Invalid or expired password reset token'', expired_store)
   \<and> fst (resetPassword stub_deps two_users (reset_request ''rtok'') 2000)
       = fst (resetPassword stub_deps expired_store (reset_request ''rtok'') 2000)"
proof -
  have v: "\<not> acceptsHtml verify_request \<and> truthy (path_token verify_request)
      \<and> trim (the (path_token verify_request)) \<noteq> []
      \<and> findOne two_users (\<lambda>u. emailVerificationToken u
            = Some (sha256 stub_deps (trim (the (path_token verify_request))))) = Some bob
      \<and> emailVerificationExpire bob = Some 90000 \<and> (90000 :: int) < 100000"
    by (simp add: verify_request_def string_defs handler_defs fixture_defs)
  have r: "truthy (body_token (reset_request ''rtok''))
      \<and> truthy (body_password (reset_request ''rtok''))
      \<and> truthy (body_passwordConfirm (reset_request ''rtok''))
      \<and> body_password (reset_request ''rtok'') = body_passwordConfirm (reset_request ''rtok'')
      \<and> 6 \<le> length (the (body_password (reset_request ''rtok'')))
      \<and> carl \<in> set (users expired_store)
      \<and> passwordResetToken carl
          = Some (sha256 stub_deps (trim (the (body_token (reset_request ''rtok'')))))
      \<and> (\<forall>v\<in>set (users expired_store).
            passwordResetToken v
              = Some (sha256 stub_deps (trim (the (body_token (reset_request ''rtok'')))))
              \<longrightarrow> (\<exists>e. passwordResetExpire v = Some e \<and> e \<le> 2000))"
    by (simp add: reset_request_def expired_store_def carl_def string_defs handler_defs
        fixture_defs)
  have none: "\<forall>v\<in>set (users two_users).
      passwordResetToken v
        \<noteq> Some (sha256 stub_deps (trim (the (body_token (reset_request ''rtok'')))))"
    by (simp add: reset_request_def string_defs handler_defs fixture_defs)
  note t = expired_token_responses [of verify_request two_users stub_deps bob 90000 100000
      "reset_request ''rtok''" carl expired_store stub_deps 2000]
  from t v have "verifyEmail stub_deps two_users verify_request 100000 =
     (failure 400 ''Verification token has expired. Please request a new verification email.'',
      two_users)
   \<and> fst (verifyEmail stub_deps two_users verify_request 100000)
       \<noteq> failure 400 ''Invalid verification token. The token may be incorrect or already used.''"
    by blast
  moreover from t r have "resetPassword stub_deps expired_store (reset_request ''rtok'') 2000
       = (failure 400 ''Invalid or expired password reset token'', expired_store)"
    by blast
  moreover from t r none
  have "fst (resetPassword stub_deps two_users (reset_request ''rtok'') 2000)
       = fst (resetPassword stub_deps expired_store (reset_request ''rtok'') 2000)"
    by blast
  ultimately show ?thesis
    by blast
qed

subsection \<open>Forgot password and resend verification\<close>

lemma reset_mail_fields:
  "reset_mail D req (u\<lparr>passwordResetToken := t, passwordResetExpire := e\<rparr>) rnd = reset_mail D req u rnd"
  by (simp add: reset_mail_def)


lemma forgotPassword_sent:
  assumes "truthy (body_email req)"
    and "findOne st (\<lambda>u. email u = toLowerCase (the (body_email req))) = Some u"
    and "sendEmail D (reset_mail D req u rnd)"
  shows "forgotPassword D st req now rnd =
           (success 200 forgot_message,
            save st (u\<lparr>passwordResetToken := Some (sha256 D rnd),
                       passwordResetExpire := Some (now + 3600000)\<rparr>))"
  using assms by (simp add: forgotPassword_def Let_def reset_mail_fields)

lemma forgotPassword_bounced:
  assumes "truthy (body_email req)"
    and "findOne st (\<lambda>u. email u = toLowerCase (the (body_email req))) = Some u"
    and "\<not> sendEmail D (reset_mail D req u rnd)"
  shows "forgotPassword D st req now rnd =
           (failure 500 ''Failed to send password reset email. Please try again later.'',
            save st (u\<lparr>passwordResetToken := None, passwordResetExpire := None\<rparr>))"
  using assms by (simp add: forgotPassword_def Let_def reset_mail_fields save_save)





text \<open>
  Claim C7, as the code has it. For a user found by the email: when the dispatch of the
  reset mail fails, the request answers 500 and both reset fields of the user are cleared,
  the rest of the document and every other document being as before the request; so the
  store is the one before the request when the user had no reset token pending (and the
  \<^verbatim>\<open>_id\<close> names one document). When the dispatch succeeds, the request answers 200
  and the user holds the new hash with an expiry one hour ahead.
\<close>

theorem forgot_password_dispatch_failure:
  assumes "truthy (body_email req)"
    and "findOne st (\<lambda>u. email u = toLowerCase (the (body_email req))) = Some u"
  shows "(\<not> sendEmail D (reset_mail D req u rnd) \<longrightarrow>
            forgotPassword D st req now rnd =
              (failure 500 ''Failed to send password reset email. Please try again later.'',
               save st (u\<lparr>passwordResetToken := None, passwordResetExpire := None\<rparr>)))
       \<and> (\<not> sendEmail D (reset_mail D req u rnd)
            \<and> passwordResetToken u = None \<and> passwordResetExpire u = None
            \<and> (\<forall>v\<in>set (users st). user_id v = user_id u \<longrightarrow> v = u) \<longrightarrow>
            snd (forgotPassword D st req now rnd) = st)
       \<and> (sendEmail D (reset_mail D req u rnd) \<longrightarrow>
            forgotPassword D st req now rnd =
              (success 200 forgot_message,
               save st (u\<lparr>passwordResetToken := Some (sha256 D rnd),
                          passwordResetExpire := Some (now + 3600000)\<rparr>)))"
proof (intro conjI impI)
  assume "\<not> sendEmail D (reset_mail D req u rnd)"
  with assms show "forgotPassword D st req now rnd =
      (failure 500 ''Failed to send password reset email. Please try again later.'',
       save st (u\<lparr>passwordResetToken := None, passwordResetExpire := None\<rparr>))"
    by (rule forgotPassword_bounced)
next
  assume a: "\<not> sendEmail D (reset_mail D req u rnd)
      \<and> passwordResetToken u = None \<and> passwordResetExpire u = None
      \<and> (\<forall>v\<in>set (users st). user_id v = user_id u \<longrightarrow> v = u)"
  then have same: "u\<lparr>passwordResetToken := None, passwordResetExpire := None\<rparr> = u"
    by simp
  from a have "save st u = st"
    by (intro save_unchanged) blast
  with forgotPassword_bounced [OF assms, of D rnd now] a same
  show "snd (forgotPassword D st req now rnd) = st"
    by simp
next
  assume "sendEmail D (reset_mail D req u rnd)"
  with assms show "forgotPassword D st req now rnd =
      (success 200 forgot_message,
       save st (u\<lparr>passwordResetToken := Some (sha256 D rnd),
                  passwordResetExpire := Some (now + 3600000)\<rparr>))"
    by (rule forgotPassword_sent)
qed

text \<open>
  The claim as stated fails where a reset token is pending: Erin holds a hash that is
  valid until 9000000 ms; at 7000 ms she asks again, the provider refuses the mail, and
  her fields are cleared, which is not the state before the request.
\<close>

theorem forgot_password_rollback_counterexample:
  "findOne erin_store (\<lambda>u. email u = toLowerCase ''bounce@x.org'') = Some erin
   \<and> passwordResetToken erin = Some ''h-old'' \<and> passwordResetExpire erin = Some 9000000
   \<and> \<not> sendEmail stub_deps (reset_mail stub_deps (mail_request ''bounce@x.org'') erin ''r1'')
   \<and> fst (forgotPassword stub_deps erin_store (mail_request ''bounce@x.org'') 7000 ''r1'')
       = failure 500 ''Failed to send password reset email. Please try again later.''
   \<and> map passwordResetToken
       (users (snd (forgotPassword stub_deps erin_store (mail_request ''bounce@x.org'') 7000 ''r1'')))
       = [None, None]
   \<and> map passwordResetExpire
       (users (snd (forgotPassword stub_deps erin_store (mail_request ''bounce@x.org'') 7000 ''r1'')))
       = [None, None]
   \<and> snd (forgotPassword stub_deps erin_store (mail_request ''bounce@x.org'') 7000 ''r1'')
       \<noteq> erin_store"
  by (simp add: forgotPassword_def erin_store_def erin_def
      mail_request_def mail_defs string_defs handler_defs fixture_defs)

theorem forgot_password_dispatch_failure_witness:
  "forgotPassword stub_deps two_users (mail_request ''bounce@x.org'') 7000 ''r1''
     = (failure 500 ''Failed to send password reset email. Please try again later.'', two_users)
   \<and> forgotPassword stub_deps two_users (mail_request ''ann@x.org'') 7000 ''r1''
     = (success 200 forgot_message,
        save two_users (ann\<lparr>passwordResetToken := Some ''h-r1'',
                            passwordResetExpire := Some 3607000\<rparr>))"
proof -
  have b: "truthy (body_email (mail_request ''bounce@x.org''))"
    "findOne two_users (\<lambda>u. email u = toLowerCase (the (body_email (mail_request ''bounce@x.org''))))
       = Some bob"
    by (simp_all add: mail_request_def mail_defs string_defs handler_defs fixture_defs)
  have bounced: "\<not> sendEmail stub_deps (reset_mail stub_deps (mail_request ''bounce@x.org'') bob ''r1'')
      \<and> passwordResetToken bob = None \<and> passwordResetExpire bob = None
      \<and> (\<forall>v\<in>set (users two_users). user_id v = user_id bob \<longrightarrow> v = bob)"
    by (simp add: mail_request_def mail_defs string_defs handler_defs fixture_defs)
  have a: "truthy (body_email (mail_request ''ann@x.org''))"
    "findOne two_users (\<lambda>u. email u = toLowerCase (the (body_email (mail_request ''ann@x.org''))))
       = Some ann"
    by (simp_all add: mail_request_def mail_defs string_defs handler_defs fixture_defs)
  have sent: "sendEmail stub_deps (reset_mail stub_deps (mail_request ''ann@x.org'') ann ''r1'')"
    by (simp add: mail_request_def mail_defs string_defs handler_defs fixture_defs)
  have vals: "sha256 stub_deps ''r1'' = ''h-r1''"
    by (simp add: stub_deps_def)
  from forgot_password_dispatch_failure [OF b, of stub_deps "''r1''" 7000]
    forgot_password_dispatch_failure [OF a, of stub_deps "''r1''" 7000] bounced sent
  show ?thesis
    by (auto simp: vals prod_eq_iff)
qed

subsection \<open>Register\<close>

lemma register_invalid:
  "\<not> fields_valid req \<Longrightarrow> snd (register D st req now rnd) = st"
  "\<not> fields_valid req \<Longrightarrow> snd (register_v2 D st req now rnd) = st"
  by (auto simp: fields_valid_def register_def register_v2_def)

lemma register_duplicate:
  assumes "fields_valid req"
    and "findOne st (\<lambda>u. email u = the (body_email req)) = Some u"
  shows "register D st req now rnd = (failure 400 ''User already exists with this email'', st)"
    and "register_v2 D st req now rnd = (failure 400 ''User already exists with this email'', st)"
  using assms by (simp_all add: fields_valid_def register_def register_v2_def)

lemma register_role_rejected:
  assumes "fields_valid req"
    and "findOne st (\<lambda>u. email u = the (body_email req)) = None"
    and "truthy (body_role req)" and "body_role req \<noteq> Some ''user''"
  shows "register D st req now rnd = (failure 403 role_message, st)"
  using assms by (simp add: fields_valid_def register_def)

lemma register_created:
  assumes "fields_valid req"
    and "findOne st (\<lambda>u. email u = the (body_email req)) = None"
    and "\<not> (truthy (body_role req) \<and> body_role req \<noteq> Some ''user'')"
  shows "\<exists>u. register D st req now rnd =
           (Json 201 True
              (Some ''Registration successful! Please check your email to verify your account.'')
              (UserData (view u)),
            st\<lparr>users := users st @ [u], next_id := Suc (next_id st)\<rparr>)
         \<and> role u = ''user'' \<and> \<not> emailVerified u \<and> email u = the (body_email req)"
proof -
  let ?u = "(new_user (next_id st) (the (body_fullName req)) (the (body_email req))
               (hashPassword D (the (body_password req))))
            \<lparr>role := ''user'', emailVerificationToken := Some (sha256 D rnd),
             emailVerificationExpire := Some (now + 24 * 60 * 60 * 1000)\<rparr>"
  have "register D st req now rnd =
          (Json 201 True
             (Some ''Registration successful! Please check your email to verify your account.'')
             (UserData (view ?u)),
           st\<lparr>users := users st @ [?u], next_id := Suc (next_id st)\<rparr>)"
    using assms
    by (auto simp: fields_valid_def register_def create_def generateVerificationToken_def Let_def)
  moreover have "role ?u = ''user'' \<and> \<not> emailVerified ?u \<and> email ?u = the (body_email req)"
    by (simp add: new_user_def)
  ultimately show ?thesis
    by blast
qed

lemma register_v2_created:
  assumes "fields_valid req"
    and "findOne st (\<lambda>u. email u = the (body_email req)) = None"
  shows "\<exists>u. role u = ''user'' \<and> user_id u = next_id st
           \<and> (snd (register_v2 D st req now rnd) = st\<lparr>users := users st @ [u], next_id := Suc (next_id st)\<rparr>
              \<or> snd (register_v2 D st req now rnd)
                  = findByIdAndDelete (st\<lparr>users := users st @ [u], next_id := Suc (next_id st)\<rparr>)
                      (next_id st))"
proof -
  let ?u = "(new_user (next_id st) (the (body_fullName req)) (the (body_email req))
               (hashPassword D (the (body_password req))))
            \<lparr>emailVerificationToken := Some (sha256 D rnd),
             emailVerificationExpire := Some (now + 24 * 60 * 60 * 1000)\<rparr>"
  let ?st = "st\<lparr>users := users st @ [?u], next_id := Suc (next_id st)\<rparr>"
  have "snd (register_v2 D st req now rnd) = ?st
        \<or> snd (register_v2 D st req now rnd) = findByIdAndDelete ?st (next_id st)"
    using assms
    by (simp add: fields_valid_def register_v2_def create_def generateVerificationToken_def
        Let_def new_user_def)
  moreover have "role ?u = ''user'' \<and> user_id ?u = next_id st"
    by (simp add: new_user_def default_role_def)
  ultimately show ?thesis
    by blast
qed

lemma register_users:
  "u \<in> set (users (snd (register D st req now rnd))) \<Longrightarrow> u \<in> set (users st) \<or> role u = ''user''"
proof (cases "fields_valid req")
  case False
  assume "u \<in> set (users (snd (register D st req now rnd)))"
  with False show ?thesis
    by (simp add: register_invalid)
next
  case valid: True
  assume u: "u \<in> set (users (snd (register D st req now rnd)))"
  show ?thesis
  proof (cases "findOne st (\<lambda>u. email u = the (body_email req))")
    case (Some v)
    with valid u show ?thesis
      by (simp add: register_duplicate)
  next
    case None
    show ?thesis
    proof (cases "truthy (body_role req) \<and> body_role req \<noteq> Some ''user''")
      case True
      with valid None u show ?thesis
        by (simp add: register_role_rejected)
    next
      case False
      from register_created [OF valid None False, of D now rnd] u show ?thesis
        by auto
    qed
  qed
qed

lemma register_v2_users:
  "u \<in> set (users (snd (register_v2 D st req now rnd))) \<Longrightarrow> u \<in> set (users st) \<or> role u = ''user''"
proof (cases "fields_valid req")
  case False
  assume "u \<in> set (users (snd (register_v2 D st req now rnd)))"
  with False show ?thesis
    by (simp add: register_invalid)
next
  case valid: True
  assume u: "u \<in> set (users (snd (register_v2 D st req now rnd)))"
  show ?thesis
  proof (cases "findOne st (\<lambda>u. email u = the (body_email req))")
    case (Some v)
    with valid u show ?thesis
      by (simp add: register_duplicate)
  next
    case None
    from register_v2_created [OF valid None, of D now rnd] u show ?thesis
      by (auto simp: findByIdAndDelete_def)
  qed
qed

lemma register_v2_ignores_role:
  "register_v2 D st (req\<lparr>body_role := r\<rparr>) now rnd = register_v2 D st req now rnd"
  by (simp add: register_v2_def Let_def split: option.splits prod.splits)

text \<open>
  Claim C8. Whatever the request says, every user that is in the store after a register
  request and was not there before has the role \<^verbatim>\<open>user\<close>; this holds for the handler
  and for its older variant. The handler rejects a request whose role field asks for
  another role with 403 and creates nothing (the request having passed the earlier
  checks); the older variant does not read the role field at all. A request without such
  a role field that passes the checks creates one user, with the role \<^verbatim>\<open>user\<close>.
\<close>

theorem register_role_is_user:
  "(\<forall>u\<in>set (users (snd (register D st req now rnd))). u \<in> set (users st) \<or> role u = ''user'')
   \<and> (\<forall>u\<in>set (users (snd (register_v2 D st req now rnd))). u \<in> set (users st) \<or> role u = ''user'')
   \<and> register_v2 D st (req\<lparr>body_role := r\<rparr>) now rnd = register_v2 D st req now rnd
   \<and> (fields_valid req \<and> findOne st (\<lambda>u. email u = the (body_email req)) = None \<longrightarrow>
        (if truthy (body_role req) \<and> body_role req \<noteq> Some ''user''
         then register D st req now rnd = (failure 403 role_message, st)
         else \<exists>u. snd (register D st req now rnd)
                     = st\<lparr>users := users st @ [u], next_id := Suc (next_id st)\<rparr>
                   \<and> role u = ''user''))"
proof (intro conjI ballI impI)
  fix u assume "u \<in> set (users (snd (register D st req now rnd)))"
  then show "u \<in> set (users st) \<or> role u = ''user''"
    by (rule register_users)
next
  fix u assume "u \<in> set (users (snd (register_v2 D st req now rnd)))"
  then show "u \<in> set (users st) \<or> role u = ''user''"
    by (rule register_v2_users)
next
  show "register_v2 D st (req\<lparr>body_role := r\<rparr>) now rnd = register_v2 D st req now rnd"
    by (rule register_v2_ignores_role)
next
  assume a: "fields_valid req \<and> findOne st (\<lambda>u. email u = the (body_email req)) = None"
  show "if truthy (body_role req) \<and> body_role req \<noteq> Some ''user''
        then register D st req now rnd = (failure 403 role_message, st)
        else \<exists>u. snd (register D st req now rnd)
                    = st\<lparr>users := users st @ [u], next_id := Suc (next_id st)\<rparr>
                  \<and> role u = ''user''"
  proof (cases "truthy (body_role req) \<and> body_role req \<noteq> Some ''user''")
    case True
    with a show ?thesis
      by (simp add: register_role_rejected)
  next
    case False
    from a have "fields_valid req" "findOne st (\<lambda>u. email u = the (body_email req)) = None"
      by simp_all
    from register_created [OF this False, of D now rnd] False show ?thesis
      by auto
  qed
qed

text \<open>
  Finn asks to be an admin: the handler refuses and the store is as before; the older
  variant creates him as a plain user. Without the role field the handler creates him as
  a plain user.
\<close>

theorem register_role_is_user_witness:
  "register stub_deps two_users (register_request ''finn@x.org'' (Some ''admin'')) 7000 ''r1''
     = (failure 403 role_message, two_users)
   \<and> map role (users (snd (register_v2 stub_deps two_users
                              (register_request ''finn@x.org'' (Some ''admin'')) 7000 ''r1'')))
       = [''user'', ''user'', ''user'']
   \<and> map role (users (snd (register stub_deps two_users
                              (register_request ''finn@x.org'' None) 7000 ''r1'')))
       = [''user'', ''user'', ''user'']"
proof -
  let ?admin = "register_request ''finn@x.org'' (Some ''admin'')"
  have h: "fields_valid ?admin \<and> findOne two_users (\<lambda>u. email u = the (body_email ?admin)) = None"
    by (simp add: register_request_def register_defs handler_defs fixture_defs)
  have r: "truthy (body_role ?admin) \<and> body_role ?admin \<noteq> Some ''user''"
    by (simp add: register_request_def register_defs handler_defs fixture_defs)
  have v2: "map role (users (snd (register_v2 stub_deps two_users ?admin 7000 ''r1'')))
              = [''user'', ''user'', ''user'']"
    by (simp add: register_request_def register_defs handler_defs fixture_defs)
  have v1: "map role (users (snd (register stub_deps two_users
                                    (register_request ''finn@x.org'' None) 7000 ''r1'')))
              = [''user'', ''user'', ''user'']"
    by (simp add: register_request_def register_defs handler_defs fixture_defs)
  from register_role_is_user [of stub_deps two_users ?admin 7000 "''r1''"] h r v1 v2
  show ?thesis
    by simp
qed

text \<open>
  Claim C9. A register request whose email belongs to a user of the store never changes
  the store: no record is created. When the request passes the checks that come before
  the lookup (all four fields present, the two passwords equal), the response is 400
  \<^verbatim>\<open>User already exists with this email\<close>; otherwise it is the 400 of the check
  that failed. The same holds for the older variant of the handler.
\<close>

theorem register_duplicate_email:
  assumes "body_email req = Some e"
    and "findOne st (\<lambda>u. email u = e) = Some u"
  shows "snd (register D st req now rnd) = st
       \<and> snd (register_v2 D st req now rnd) = st
       \<and> (\<exists>m. fst (register D st req now rnd) = failure 400 m)
       \<and> (fields_valid req \<longrightarrow>
            register D st req now rnd = (failure 400 ''User already exists with this email'', st)
          \<and> register_v2 D st req now rnd = (failure 400 ''User already exists with this email'', st))"
proof -
  from assms have found: "findOne st (\<lambda>u. email u = the (body_email req)) = Some u"
    by simp
  show ?thesis
  proof (cases "fields_valid req")
    case True
    from register_duplicate [OF True found] show ?thesis
      by auto
  next
    case False
    then have "\<exists>m. fst (register D st req now rnd) = failure 400 m"
      by (auto simp: fields_valid_def register_def)
    with False show ?thesis
      by (simp add: register_invalid)
  qed
qed

theorem register_duplicate_email_witness:
  "fields_valid (register_request ''ann@x.org'' None)
   \<and> register stub_deps two_users (register_request ''ann@x.org'' None) 7000 ''r1''
       = (failure 400 ''User already exists with this email'', two_users)
   \<and> register_v2 stub_deps two_users (register_request ''ann@x.org'' None) 7000 ''r1''
       = (failure 400 ''User already exists with this email'', two_users)"
proof -
  have h: "body_email (register_request ''ann@x.org'' None) = Some ''ann@x.org''"
    "findOne two_users (\<lambda>u. email u = ''ann@x.org'') = Some ann"
    by (simp_all add: register_request_def register_defs handler_defs fixture_defs)
  have valid: "fields_valid (register_request ''ann@x.org'' None)"
    by (simp add: register_request_def register_defs handler_defs)
  from register_duplicate_email [OF h, of stub_deps 7000 "''r1''"] valid show ?thesis
    by simp
qed

subsection \<open>Course progress\<close>

lemma array_from_length_small:
  "n \<le> 4294967295 \<Longrightarrow> \<exists>xs. array_from_length n = Inr xs"
  by (simp add: array_from_length_def Let_def min_def)

lemma updateProgress_result:
  assumes "updateProgress now1 now2 cp c t = Inr (cp', saved)"
  shows "progress cp' =
           (if t > 0 then Math_round (to_double (to_double (of_int c / of_int t) * 100)) else 0)"
    and "completedAt cp \<noteq> None \<Longrightarrow> completedAt cp' = completedAt cp"
    and "completedAt cp = None \<Longrightarrow> completedAt cp' = (if progress cp' = 100 then Some now2 else None)"
    and "saved = (0 \<le> progress cp' \<and> progress cp' \<le> 100)"
  using assms
  by (auto simp: updateProgress_def save_resolves_def Let_def split: sum.splits if_splits)

lemma Math_round_bounds:
  assumes "0 \<le> x" and "x \<le> 100"
  shows "0 \<le> Math_round x" and "Math_round x \<le> 100"
proof -
  from assms(1) have "(0::rat) \<le> x + 1 / 2"
    by simp
  then show "0 \<le> Math_round x"
    unfolding Math_round_def by (simp only: zero_le_floor of_int_0)
  from assms(2) have "x + 1 / 2 < of_int 101"
    by simp
  then have "\<lfloor>x + 1 / 2\<rfloor> < 101"
    by (simp only: floor_less_iff)
  then show "Math_round x \<le> 100"
    unfolding Math_round_def by simp
qed

lemma percentage_bounds:
  assumes c: "0 \<le> c" "c \<le> t" and t: "0 < t"
  shows "0 \<le> to_double (to_double (of_int c / of_int t) * 100)"
    and "to_double (to_double (of_int c / of_int t) * 100) \<le> 100"
proof -
  let ?q = "(of_int c :: rat) / of_int t"
  from c t have q: "0 \<le> ?q" "?q \<le> of_int 1"
    by simp_all
  from q(1) have lo: "0 \<le> to_double ?q"
    by (rule to_double_nonneg)
  from q have "to_double ?q \<le> of_int 1"
    by (rule to_double_le_int) simp
  then have hi: "to_double ?q \<le> 1"
    by simp
  from lo have p: "0 \<le> to_double ?q * 100"
    by simp
  then show "0 \<le> to_double (to_double ?q * 100)"
    by (rule to_double_nonneg)
  from hi have "to_double ?q * 100 \<le> of_int 100"
    by simp
  with p have "to_double (to_double ?q * 100) \<le> of_int 100"
    by (rule to_double_le_int) simp
  then show "to_double (to_double ?q * 100) \<le> 100"
    by simp
qed

text \<open>
  The rounding is the one of the doubles: 23 lessons of 40 are 57.5 percent, but the
  double nearest to 23/40, times 100, is a double just below 57.5, and the progress is 57.
\<close>

lemma progress_23_of_40:
  "Math_round (to_double (to_double (of_int 23 / of_int 40) * 100)) = 57"
  by code_simp

text \<open>
  Claim C10. A call with a count of at most \<open>2^32 - 1\<close> returns. After every call that
  returns, the progress is \<^verbatim>\<open>Math.round((completedLessonsCount / totalLessons) * 100)\<close>
  in the arithmetic of the source when \<open>totalLessons > 0\<close>, and 0 otherwise. For counts
  with \<open>0 \<le> completedLessonsCount \<le> totalLessons\<close> the progress is within 0 and 100
  and the save passes the validators. A \<^verbatim>\<open>completedAt\<close> that is set stays as it
  is; one that is not set becomes the time of the call exactly when the progress is 100.
\<close>

theorem update_progress:
  "(c \<le> 4294967295 \<longrightarrow> (\<exists>r. updateProgress now1 now2 cp c t = Inr r))
   \<and> (\<forall>cp' saved. updateProgress now1 now2 cp c t = Inr (cp', saved) \<longrightarrow>
         progress cp' =
           (if t > 0 then Math_round (to_double (to_double (of_int c / of_int t) * 100)) else 0)
       \<and> (0 \<le> c \<and> c \<le> t \<longrightarrow> 0 \<le> progress cp' \<and> progress cp' \<le> 100 \<and> saved)
       \<and> (completedAt cp \<noteq> None \<longrightarrow> completedAt cp' = completedAt cp)
       \<and> (completedAt cp = None \<longrightarrow>
             completedAt cp' = (if progress cp' = 100 then Some now2 else None)))"
proof (intro conjI allI impI)
  assume "c \<le> 4294967295"
  then obtain xs where "array_from_length c = Inr xs"
    using array_from_length_small by blast
  then show "\<exists>r. updateProgress now1 now2 cp c t = Inr r"
    by (simp add: updateProgress_def Let_def)
next
  fix cp' saved
  assume run: "updateProgress now1 now2 cp c t = Inr (cp', saved)"
  show p: "progress cp' =
      (if t > 0 then Math_round (to_double (to_double (of_int c / of_int t) * 100)) else 0)"
    using run by (rule updateProgress_result(1))
  { assume "completedAt cp \<noteq> None"
    with run show "completedAt cp' = completedAt cp"
      by (rule updateProgress_result(2)) }
  { assume "completedAt cp = None"
    with run show "completedAt cp' = (if progress cp' = 100 then Some now2 else None)"
      by (rule updateProgress_result(3)) }
  assume c: "0 \<le> c \<and> c \<le> t"
  have bounds: "0 \<le> progress cp' \<and> progress cp' \<le> 100"
  proof (cases "0 < t")
    case True
    from c True have "0 \<le> to_double (to_double (of_int c / of_int t) * 100)"
      "to_double (to_double (of_int c / of_int t) * 100) \<le> 100"
      by (auto intro: percentage_bounds)
    then have "0 \<le> Math_round (to_double (to_double (of_int c / of_int t) * 100))"
      "Math_round (to_double (to_double (of_int c / of_int t) * 100)) \<le> 100"
      by (rule Math_round_bounds)+
    with True p show ?thesis
      by simp
  next
    case False
    with p show ?thesis
      by simp
  qed
  then show "0 \<le> progress cp'" and "progress cp' \<le> 100"
    by simp_all
  from bounds updateProgress_result(4) [OF run] show saved
    by simp
qed

text \<open>
  One lesson of eight is 12.5 percent, rounded up to 13; four of four complete the course
  at the second clock reading; a later call with two of four leaves that time in place.
\<close>

theorem update_progress_witness:
  "updateProgress 2000 2001 fresh_progress 1 8
     = Inr (fresh_progress\<lparr>completedLessons := [0], progress := 13, lastAccessedAt := 2000\<rparr>, True)
   \<and> updateProgress 3000 3001 fresh_progress 4 4
     = Inr (fresh_progress\<lparr>completedLessons := [0, 1, 2, 3], progress := 100,
                            lastAccessedAt := 3000, completedAt := Some 3001\<rparr>, True)
   \<and> updateProgress 4000 4001
       (fresh_progress\<lparr>completedLessons := [0, 1, 2, 3], progress := 100,
                        lastAccessedAt := 3000, completedAt := Some 3001\<rparr>) 2 4
     = Inr (fresh_progress\<lparr>completedLessons := [0, 1], progress := 50,
                            lastAccessedAt := 4000, completedAt := Some 3001\<rparr>, True)"
proof -
  let ?done = "fresh_progress\<lparr>completedLessons := [0, 1, 2, 3], progress := 100,
                              lastAccessedAt := 3000, completedAt := Some 3001\<rparr>"
  have lessons: "array_from_length 1 = Inr [0]" "array_from_length 4 = Inr [0, 1, 2, 3]"
    "array_from_length 2 = Inr [0, 1]"
    by (simp_all add: array_from_length_def Let_def upt_rec)
  have r1: "Math_round (to_double (to_double (1 / 8) * 100)) = 13"
    by code_simp
  have r2: "Math_round (to_double (to_double 1 * 100)) = 100"
    by code_simp
  have r3: "Math_round (to_double (to_double (1 / 2) * 100)) = 50"
    by code_simp
  note rounds = r1 r2 r3
  have a: "updateProgress 2000 2001 fresh_progress 1 8
     = Inr (fresh_progress\<lparr>completedLessons := [0], progress := 13, lastAccessedAt := 2000\<rparr>, True)"
    by (simp add: updateProgress_def lessons rounds save_resolves_def fresh_progress_def Let_def)
  have b: "updateProgress 3000 3001 fresh_progress 4 4 = Inr (?done, True)"
    by (simp add: updateProgress_def lessons rounds save_resolves_def fresh_progress_def Let_def)
  have c: "\<exists>cp'. updateProgress 4000 4001 ?done 2 4 = Inr (cp', True)
            \<and> cp' = fresh_progress\<lparr>completedLessons := [0, 1], progress := 50,
                            lastAccessedAt := 4000, completedAt := Some 3001\<rparr>"
    by (simp add: updateProgress_def lessons rounds save_resolves_def fresh_progress_def Let_def)
  then obtain cp' where run: "updateProgress 4000 4001 ?done 2 4 = Inr (cp', True)"
    and cp': "cp' = fresh_progress\<lparr>completedLessons := [0, 1], progress := 50,
                            lastAccessedAt := 4000, completedAt := Some 3001\<rparr>"
    by blast
  from update_progress [of 2 4000 4001 ?done 4] a b run cp' show ?thesis
    by simp
qed

end
